theory Spec2Isabelle
  imports Complex_Main "HOL-Library.Multiset"
begin

section \<open>AthenaX: option symbol codec, contract selector, sizer, planner, orchestrator\<close>

text \<open>
  A shallow embedding of the decision logic of the AthenaX strategy runner
  (package \<^verbatim>\<open>alpaca\<close>: \<^verbatim>\<open>ParseOptionTicker\<close>, \<^verbatim>\<open>GetOptionsPositions\<close>,
  \<^verbatim>\<open>GetCallLeapsByDelta\<close>, \<^verbatim>\<open>PlaceOptionLimitOrderWithTakeProfit\<close>; package
  \<^verbatim>\<open>notification\<close>; package \<^verbatim>\<open>strategies\<close>: \<^verbatim>\<open>calculateInvestmentSize\<close>, \<^verbatim>\<open>Run\<close>).

  Conventions of the embedding.
  \<^item> Go strings are byte sequences: \<^typ>\<open>string\<close>. \<^verbatim>\<open>s[i:]\<close> is \<^const>\<open>drop\<close>,
    \<^verbatim>\<open>s[:i]\<close> is \<^const>\<open>take\<close>.
  \<^item> A finite \<^verbatim>\<open>float64\<close> is the \<^typ>\<open>real\<close> number it denotes; the type
    \<open>float64\<close> below adds the infinities and NaN where the source can produce them.
    Comparisons are exact. The arithmetic of the order planner, whose results are
    truncated to cents and to contracts, is rounded as IEEE 754 prescribes (\<open>f64_mul\<close>,
    \<open>f64_quo\<close>, \<open>f64_add\<close>). The strike divided by 1000, the quotient of the sizer and
    the gap percentage, which are only compared or passed on, are taken exact.
  \<^item> Go's \<^verbatim>\<open>int\<close> is idealised as \<^typ>\<open>int\<close> where it counts positions; the
    conversion \<^verbatim>\<open>int(x)\<close> of a float is the 64-bit one (\<open>go_int\<close>).
  \<^item> An \<^verbatim>\<open>error\<close> return is the left summand of a sum type; \<^verbatim>\<open>nil\<close> error of a
    function that returns only an error is \<^const>\<open>None\<close>.
  \<^item> Calls to the broker and to the notifier are recorded, in order, in an event
    log that every effectful function receives and returns extended. The broker's
    answers are the fields of an environment record. Log lines (\<^verbatim>\<open>log.Printf\<close>) and
    the text of messages are left out.
\<close>

subsection \<open>Characters\<close>

definition isDigit :: "char \<Rightarrow> bool" where
  "isDigit c = (48 \<le> (of_char c :: nat) \<and> (of_char c :: nat) \<le> 57)"

definition digitVal :: "char \<Rightarrow> nat" where
  "digitVal c = of_char c - 48"

definition isHexLetter :: "char \<Rightarrow> bool" where
  "isHexLetter c = ((65 \<le> (of_char c :: nat) \<and> (of_char c :: nat) \<le> 70) \<or>
                    (97 \<le> (of_char c :: nat) \<and> (of_char c :: nat) \<le> 102))"

definition hexLetterVal :: "char \<Rightarrow> nat" where
  "hexLetterVal c = (if 97 \<le> (of_char c :: nat) then of_char c - 97 + 10 else of_char c - 65 + 10)"

definition toLowerAZ :: "char \<Rightarrow> char" where
  "toLowerAZ c = (if 65 \<le> (of_char c :: nat) \<and> (of_char c :: nat) \<le> 90
                  then char_of ((of_char c :: nat) + 32) else c)"

subsection \<open>The library function strconv.ParseFloat (bit size 64)\<close>

text \<open>
  \<^verbatim>\<open>ParseOptionTicker\<close> hands the last eight bytes of the symbol to
  \<^verbatim>\<open>strconv.ParseFloat\<close>. The function belongs to Go's standard library; it is
  modelled here after its grammar: the words \<^verbatim>\<open>inf\<close>, \<^verbatim>\<open>infinity\<close>, \<^verbatim>\<open>nan\<close> in any case
  (\<open>special\<close>), and decimal or hexadecimal floating-point literals with an optional
  sign, an optional exponent and underscores between digits (\<open>readFloat\<close>,
  \<open>underscoreOK\<close>). The whole string must be consumed. The value returned is the exact
  value of the literal; a literal that rounds to an infinity is a range error.
\<close>

datatype float64 = Finite real | PlusInf | MinusInf | NotANumber

datatype NumError = ErrSyntax | ErrRange

fun commonPrefixLenIgnoreCase :: "string \<Rightarrow> string \<Rightarrow> nat" where
  "commonPrefixLenIgnoreCase (c # s) (p # ps) =
     (if toLowerAZ c = p then Suc (commonPrefixLenIgnoreCase s ps) else 0)"
| "commonPrefixLenIgnoreCase _ _ = 0"

definition infinityLen :: "string \<Rightarrow> nat option" where
  "infinityLen s =
     (let n = commonPrefixLenIgnoreCase s ''infinity'';
          n' = (if 3 < n \<and> n < 8 then 3 else n)
      in if n' = 3 \<or> n' = 8 then Some n' else None)"

definition special :: "string \<Rightarrow> (float64 \<times> nat) option" where
  "special s =
     (case s of
        [] \<Rightarrow> None
      | c # rest \<Rightarrow>
          if c = CHR ''+'' \<or> c = CHR ''-'' then
            (case infinityLen rest of
               None \<Rightarrow> None
             | Some n \<Rightarrow> Some (if c = CHR ''-'' then MinusInf else PlusInf, 1 + n))
          else if c = CHR ''i'' \<or> c = CHR ''I'' then
            (case infinityLen s of None \<Rightarrow> None | Some n \<Rightarrow> Some (PlusInf, n))
          else if c = CHR ''n'' \<or> c = CHR ''N'' then
            (if commonPrefixLenIgnoreCase s ''nan'' = 3 then Some (NotANumber, 3) else None)
          else None)"

record mant_state =
  sawdot :: bool
  sawdigits :: bool
  underscores :: bool
  mantissa :: nat
  fracDigits :: nat

fun readMantissa :: "bool \<Rightarrow> mant_state \<Rightarrow> string \<Rightarrow> mant_state \<times> string" where
  "readMantissa hex st [] = (st, [])"
| "readMantissa hex st (c # cs) =
     (if c = CHR ''_'' then readMantissa hex (st\<lparr>underscores := True\<rparr>) cs
      else if c = CHR ''.'' then
        (if sawdot st then (st, c # cs) else readMantissa hex (st\<lparr>sawdot := True\<rparr>) cs)
      else if isDigit c then
        readMantissa hex
          (st\<lparr>sawdigits := True,
              mantissa := mantissa st * (if hex then 16 else 10) + digitVal c,
              fracDigits := fracDigits st + (if sawdot st then 1 else 0)\<rparr>) cs
      else if hex \<and> isHexLetter c then
        readMantissa hex
          (st\<lparr>sawdigits := True,
              mantissa := mantissa st * 16 + hexLetterVal c,
              fracDigits := fracDigits st + (if sawdot st then 1 else 0)\<rparr>) cs
      else (st, c # cs))"

fun readExpDigits :: "nat \<Rightarrow> bool \<Rightarrow> string \<Rightarrow> nat \<times> bool \<times> string" where
  "readExpDigits e us [] = (e, us, [])"
| "readExpDigits e us (c # cs) =
     (if c = CHR ''_'' then readExpDigits e True cs
      else if isDigit c then readExpDigits (if e < 10000 then e * 10 + digitVal c else e) us cs
      else (e, us, c # cs))"

definition readExponent :: "bool \<Rightarrow> string \<Rightarrow> (int \<times> bool \<times> string) option" where
  "readExponent hex s =
     (case s of
        [] \<Rightarrow> if hex then None else Some (0, False, [])
      | c # cs \<Rightarrow>
          if (if hex then c = CHR ''p'' \<or> c = CHR ''P'' else c = CHR ''e'' \<or> c = CHR ''E'') then
            (case cs of
               [] \<Rightarrow> None
             | d # ds \<Rightarrow>
                 let esign = (if d = CHR ''-'' then - 1 else 1 :: int);
                     cs1 = (if d = CHR ''+'' \<or> d = CHR ''-'' then ds else cs)
                 in (case cs1 of
                       [] \<Rightarrow> None
                     | f # fs \<Rightarrow>
                         if \<not> isDigit f then None
                         else (case readExpDigits 0 False cs1 of
                                 (e, us, rest) \<Rightarrow> Some (esign * int e, us, rest))))
          else if hex then None
          else Some (0, False, c # cs))"

fun underscoreLoop :: "bool \<Rightarrow> char \<Rightarrow> string \<Rightarrow> bool" where
  "underscoreLoop hex saw [] = (saw \<noteq> CHR ''_'')"
| "underscoreLoop hex saw (c # cs) =
     (if isDigit c \<or> (hex \<and> isHexLetter c) then underscoreLoop hex (CHR ''0'') cs
      else if c = CHR ''_'' then
        (if saw \<noteq> CHR ''0'' then False else underscoreLoop hex (CHR ''_'') cs)
      else if saw = CHR ''_'' then False
      else underscoreLoop hex (CHR ''!'') cs)"

definition underscoreOK :: "string \<Rightarrow> bool" where
  "underscoreOK s =
     (let s1 = (case s of [] \<Rightarrow> s | c # cs \<Rightarrow> if c = CHR ''-'' \<or> c = CHR ''+'' then cs else s)
      in case s1 of
           a # b # cs \<Rightarrow>
             if a = CHR ''0'' \<and> (toLowerAZ b = CHR ''b'' \<or> toLowerAZ b = CHR ''o'' \<or> toLowerAZ b = CHR ''x'')
             then underscoreLoop (toLowerAZ b = CHR ''x'') (CHR ''0'') cs
             else underscoreLoop False (CHR ''^'') s1
         | _ \<Rightarrow> underscoreLoop False (CHR ''^'') s1)"

text \<open>
  \<open>readFloat s\<close> is \<open>Some (neg, hex, m, e, n)\<close> when a prefix of \<open>n\<close> bytes of \<open>s\<close> is a
  literal with sign \<open>neg\<close>, digits \<open>m\<close> and exponent \<open>e\<close> of the base (10, or 2 for a
  hexadecimal literal).
\<close>

definition readFloat :: "string \<Rightarrow> (bool \<times> bool \<times> nat \<times> int \<times> nat) option" where
  "readFloat s =
     (case s of
        [] \<Rightarrow> None
      | c # cs \<Rightarrow>
          let neg = (c = CHR ''-'');
              s1 = (if c = CHR ''+'' \<or> c = CHR ''-'' then cs else s);
              hex = (2 < length s1 \<and> s1 ! 0 = CHR ''0'' \<and> (s1 ! 1 = CHR ''x'' \<or> s1 ! 1 = CHR ''X''));
              s2 = (if hex then drop 2 s1 else s1)
          in case readMantissa hex
                    \<lparr>sawdot = False, sawdigits = False, underscores = False,
                     mantissa = 0, fracDigits = 0\<rparr> s2 of
               (st, s3) \<Rightarrow>
                 if \<not> sawdigits st then None
                 else (case readExponent hex s3 of
                         None \<Rightarrow> None
                       | Some (e, us, s4) \<Rightarrow>
                           let n = length s - length s4 in
                           if (underscores st \<or> us) \<and> \<not> underscoreOK (take n s) then None
                           else Some (neg, hex, mantissa st,
                                      e - int (fracDigits st) * (if hex then 4 else 1), n)))"

definition scaled :: "nat \<Rightarrow> nat \<Rightarrow> int \<Rightarrow> real" where
  "scaled base m e = (if 0 \<le> e then real m * real base ^ nat e else real m / real base ^ nat (- e))"

definition ParseFloat :: "string \<Rightarrow> NumError + float64" where
  "ParseFloat s =
     (case special s of
        Some (v, n) \<Rightarrow> if n = length s then Inr v else Inl ErrSyntax
      | None \<Rightarrow>
          (case readFloat s of
             None \<Rightarrow> Inl ErrSyntax
           | Some (neg, hex, m, e, n) \<Rightarrow>
               if n \<noteq> length s then Inl ErrSyntax
               else let v = scaled (if hex then 2 else 10) m e in
                    if 2 ^ 1024 - 2 ^ 970 \<le> v then Inl ErrRange
                    else Inr (Finite (if neg then - v else v))))"

definition f64_div :: "float64 \<Rightarrow> real \<Rightarrow> float64" where
  "f64_div x d = (case x of Finite r \<Rightarrow> Finite (r / d) | other \<Rightarrow> other)"

subsection \<open>The library function time.Parse with the layout 2006-01-02\<close>

text \<open>
  The result of \<^verbatim>\<open>time.Parse("2006-01-02", v)\<close> is midnight UTC of a calendar day; it
  is modelled by the day itself. \<^verbatim>\<open>Before\<close> and \<^verbatim>\<open>Equal\<close> of two such instants
  compare the days.
\<close>

record Date =
  Year :: nat
  Month :: nat
  Day :: nat

datatype ParseError = ErrBadValue | ErrMonthOutOfRange | ErrDayOutOfRange

definition isLeap :: "nat \<Rightarrow> bool" where
  "isLeap y = (y mod 4 = 0 \<and> (y mod 100 \<noteq> 0 \<or> y mod 400 = 0))"

definition daysIn :: "nat \<Rightarrow> nat \<Rightarrow> nat" where
  "daysIn m y =
     (if m = 2 then (if isLeap y then 29 else 28)
      else if m = 4 \<or> m = 6 \<or> m = 9 \<or> m = 11 then 30 else 31)"

definition twoDigits :: "char \<Rightarrow> char \<Rightarrow> nat" where
  "twoDigits a b = digitVal a * 10 + digitVal b"

definition time_Parse :: "string \<Rightarrow> ParseError + Date" where
  "time_Parse v =
     (case v of
        [y1, y2, y3, y4, s1, m1, m2, s2, d1, d2] \<Rightarrow>
          if \<not> (isDigit y1 \<and> isDigit y2 \<and> isDigit y3 \<and> isDigit y4) then Inl ErrBadValue
          else if s1 \<noteq> CHR ''-'' then Inl ErrBadValue
          else if \<not> (isDigit m1 \<and> isDigit m2) then Inl ErrBadValue
          else if twoDigits m1 m2 \<le> 0 \<or> 12 < twoDigits m1 m2 then Inl ErrMonthOutOfRange
          else if s2 \<noteq> CHR ''-'' then Inl ErrBadValue
          else if \<not> (isDigit d1 \<and> isDigit d2) then Inl ErrBadValue
          else
            let yr = twoDigits y1 y2 * 100 + twoDigits y3 y4 in
            if twoDigits d1 d2 < 1 \<or> daysIn (twoDigits m1 m2) yr < twoDigits d1 d2
            then Inl ErrDayOutOfRange
            else Inr \<lparr>Year = yr, Month = twoDigits m1 m2, Day = twoDigits d1 d2\<rparr>
      | _ \<Rightarrow> Inl ErrBadValue)"

definition Before :: "Date \<Rightarrow> Date \<Rightarrow> bool" where
  "Before a b =
     (Year a < Year b \<or>
      (Year a = Year b \<and> (Month a < Month b \<or> (Month a = Month b \<and> Day a < Day b))))"

subsection \<open>Errors of the repository\<close>

datatype error =
    ErrSymbolEmpty
  | ErrTooShort
  | ErrInvalidStrike NumError
  | ErrMissingOptionType
  | ErrInvalidOptionType char
  | ErrMissingDate
  | ErrInvalidExpiration ParseError
  | ErrUnderlyingEmpty
  | ErrMinDeltaNotPositive
  | ErrNoCallLeaps
  | ErrNoCallLeapsWithDelta
  | ErrOptionSymbolEmpty
  | ErrOptionQuoteNil
  | ErrInvestmentSizeNotPositive
  | ErrTakeProfitNotPositive
  | ErrInvalidBidAsk
  | ErrQuantityNotPositive
  | ErrNoRemainingSpots
  | ErrIndexOutOfRange
  | Upstream string
  | Wrapped string error

subsection \<open>ParseOptionTicker\<close>

record Option =
  Underlying :: string
  Expiry :: Date
  Type :: string
  Strike :: float64
  Ticker :: string

definition ParseOptionTicker :: "string \<Rightarrow> error + Option" where
  "ParseOptionTicker symbol =
     (if symbol = [] then Inl ErrSymbolEmpty
      else if length symbol < 8 then Inl ErrTooShort
      else
        let strikeStr = drop (length symbol - 8) symbol in
        case ParseFloat strikeStr of
          Inl e \<Rightarrow> Inl (ErrInvalidStrike e)
        | Inr strikeFloat \<Rightarrow>
            let strike = f64_div strikeFloat 1000;
                baseSymbol = take (length symbol - 8) symbol
            in
            if length baseSymbol < 1 then Inl ErrMissingOptionType
            else
              let optionTypeChar = baseSymbol ! (length baseSymbol - 1) in
              if optionTypeChar \<noteq> CHR ''C'' \<and> optionTypeChar \<noteq> CHR ''P''
              then Inl (ErrInvalidOptionType optionTypeChar)
              else
                let optionType = [optionTypeChar];
                    datePart = take (length baseSymbol - 1) baseSymbol
                in
                if length datePart < 6 then Inl ErrMissingDate
                else
                  let dateStr = drop (length datePart - 6) datePart;
                      year = ''20'' @ take 2 dateStr;
                      month = take 2 (drop 2 dateStr);
                      day = take 2 (drop 4 dateStr);
                      dateStrFull = year @ ''-'' @ month @ ''-'' @ day
                  in
                  (case time_Parse dateStrFull of
                     Inl e \<Rightarrow> Inl (ErrInvalidExpiration e)
                   | Inr expiry \<Rightarrow>
                       Inr \<lparr>Underlying = take (length datePart - 6) datePart,
                            Expiry = expiry,
                            Type = optionType,
                            Strike = strike,
                            Ticker = symbol\<rparr>))"

text \<open>
  Modelled from the spec: the encoding rule of the symbol wire format (the
  repository only decodes; it has no encoder). The symbol is the underlying, the
  expiry as \<^verbatim>\<open>YYMMDD\<close>, the type letter, and the strike price multiplied by 1000,
  zero-padded to eight digits.
\<close>

definition digitChar :: "nat \<Rightarrow> char" where
  "digitChar d = char_of (48 + d)"

definition pad2 :: "nat \<Rightarrow> string" where
  "pad2 n = [digitChar (n div 10 mod 10), digitChar (n mod 10)]"

definition pad8 :: "nat \<Rightarrow> string" where
  "pad8 n = [digitChar (n div 10000000 mod 10), digitChar (n div 1000000 mod 10),
             digitChar (n div 100000 mod 10), digitChar (n div 10000 mod 10),
             digitChar (n div 1000 mod 10), digitChar (n div 100 mod 10),
             digitChar (n div 10 mod 10), digitChar (n mod 10)]"

definition encodeOptionTicker :: "string \<Rightarrow> Date \<Rightarrow> char \<Rightarrow> real \<Rightarrow> string" where
  "encodeOptionTicker underlying expiry typ strike =
     underlying @ pad2 (Year expiry mod 100) @ pad2 (Month expiry) @ pad2 (Day expiry)
       @ [typ] @ pad8 (nat \<lfloor>strike * 1000\<rfloor>)"

text \<open>
  The dates the \<^verbatim>\<open>YYMMDD\<close> field can carry under the codec's convention that the year is
  \<open>2000 + YY\<close>, and the six bytes that spell such a date.
\<close>

definition validDate :: "Date \<Rightarrow> bool" where
  "validDate d =
     (2000 \<le> Year d \<and> Year d \<le> 2099 \<and> 1 \<le> Month d \<and> Month d \<le> 12 \<and>
      1 \<le> Day d \<and> Day d \<le> daysIn (Month d) (Year d))"

definition dateOfYYMMDD :: "string \<Rightarrow> Date" where
  "dateOfYYMMDD s =
     \<lparr>Year = 2000 + twoDigits (s ! 0) (s ! 1), Month = twoDigits (s ! 2) (s ! 3),
      Day = twoDigits (s ! 4) (s ! 5)\<rparr>"

definition validYYMMDD :: "string \<Rightarrow> bool" where
  "validYYMMDD s = (length s = 6 \<and> list_all isDigit s \<and> validDate (dateOfYYMMDD s))"

definition isOK :: "'e + 'a \<Rightarrow> bool" where
  "isOK r = (case r of Inl e \<Rightarrow> False | Inr v \<Rightarrow> True)"

subsection \<open>Market data, broker answers and the event log\<close>

text \<open>
  Of \<^verbatim>\<open>marketdata.OptionSnapshot\<close>, \<^verbatim>\<open>marketdata.Greeks\<close>, \<^verbatim>\<open>alpaca.Position\<close>,
  \<^verbatim>\<open>alpaca.PlaceOrderRequest\<close> and \<^verbatim>\<open>alpaca.Order\<close> only the fields the code reads or
  writes are kept; the request's side, type and time in force are the constants Buy,
  Limit and Day. A pointer that may be nil is an \<^typ>\<open>'a option\<close>.
\<close>

record OptionQuote =
  BidPrice :: real
  AskPrice :: real

record Greeks =
  Delta :: real

record OptionSnapshot =
  LatestQuote :: "OptionQuote option"
  Greeks :: "Greeks option"

record Position =
  Symbol :: string

record PlaceOrderRequest =
  ReqSymbol :: string
  Qty :: float64
  LimitPrice :: float64
  TakeProfit :: float64

record Order =
  ID :: string

text \<open>The anonymous struct of \<^verbatim>\<open>GetCallLeapsByDelta\<close>.\<close>

record Candidate =
  c_symbol :: string
  c_snapshot :: OptionSnapshot
  c_delta :: real
  c_expiry :: Date

datatype notification =
  OrderPlacedN | FailureN | ActionNeededN | MaxActiveOptionsN | NoGapDownN | MarketClosedN

datatype event =
    Call_GetLastTradingDayClose
  | Call_GetLatestQuote
  | Call_GetPositions
  | Call_GetOptionChain
  | Call_GetAccount
  | Call_PlaceOrder PlaceOrderRequest
  | Notify notification

text \<open>
  The world outside the process. \<open>lastTradingDayClose\<close> is the outcome of
  \<^verbatim>\<open>GetLastTradingDayClose\<close> as a whole (its calendar and bar requests depend on the
  clock and are not modelled); \<open>latestQuote\<close>, \<open>account\<close> and \<open>placeOrder\<close> are the
  answers of the market data and trading clients, \<open>account\<close> reduced to the
  non-marginable buying power. \<open>positions k\<close> answers call number \<open>k\<close> (from 0) of
  \<^verbatim>\<open>GetPositions\<close>: the strategy asks twice in one run. \<open>optionChain\<close> is the chain
  map in the order in which the \<^verbatim>\<open>range\<close> loop visits it, which Go leaves
  unspecified. \<open>sortSlice\<close> is what \<^verbatim>\<open>sort.Slice\<close> does to the candidates: Go
  promises a permutation sorted by the \<^verbatim>\<open>less\<close> function and no stability
  (\<open>sortSlice_ok\<close>).
\<close>

record Env =
  lastTradingDayClose :: "error + real"
  latestQuote :: "error + real"
  positions :: "nat \<Rightarrow> error + Position list"
  optionChain :: "error + (string \<times> OptionSnapshot) list"
  sortSlice :: "Candidate list \<Rightarrow> Candidate list"
  account :: "error + real"
  placeOrder :: "PlaceOrderRequest \<Rightarrow> error + Order"

definition sortSlice_ok :: "(Candidate list \<Rightarrow> Candidate list) \<Rightarrow> Candidate list \<Rightarrow> bool" where
  "sortSlice_ok srt xs =
     (mset (srt xs) = mset xs \<and>
      sorted_wrt (\<lambda>a b. \<not> Before (c_expiry b) (c_expiry a)) (srt xs))"

text \<open>
  For a slice of at most 12 elements \<^verbatim>\<open>sort.Slice\<close> runs this insertion sort: element
  \<open>i\<close> is swapped to the left while it is less than its left neighbour. The
  accumulator holds the sorted prefix, last element first.
\<close>

fun insertLeft :: "Candidate \<Rightarrow> Candidate list \<Rightarrow> Candidate list" where
  "insertLeft x [] = [x]"
| "insertLeft x (y # ys) =
     (if Before (c_expiry x) (c_expiry y) then y # insertLeft x ys else x # y # ys)"

definition insertionSort :: "Candidate list \<Rightarrow> Candidate list" where
  "insertionSort xs = rev (foldl (\<lambda>acc x. insertLeft x acc) [] xs)"

subsection \<open>The notifier\<close>

text \<open>
  Each method sends one notification of its category, ignores the outcome of the
  delivery, and returns \<^verbatim>\<open>nil\<close>; \<^verbatim>\<open>Failure\<close> returns an error made of its message. A
  message is represented by the error it renders. Of the six methods the strategy calls
  these four.
\<close>

definition OrderPlaced :: "event list \<Rightarrow> error option \<times> event list" where
  "OrderPlaced tr = (None, tr @ [Notify OrderPlacedN])"

definition Failure :: "error \<Rightarrow> event list \<Rightarrow> error option \<times> event list" where
  "Failure message tr = (Some message, tr @ [Notify FailureN])"

definition MaxActiveOptions :: "event list \<Rightarrow> error option \<times> event list" where
  "MaxActiveOptions tr = (None, tr @ [Notify MaxActiveOptionsN])"

definition NoGapDown :: "event list \<Rightarrow> error option \<times> event list" where
  "NoGapDown tr = (None, tr @ [Notify NoGapDownN])"

subsection \<open>The broker client\<close>

definition GetLastTradingDayClose ::
  "Env \<Rightarrow> string \<Rightarrow> event list \<Rightarrow> (error + real) \<times> event list" where
  "GetLastTradingDayClose env symbol tr =
     (if symbol = [] then (Inl ErrSymbolEmpty, tr)
      else (lastTradingDayClose env, tr @ [Call_GetLastTradingDayClose]))"

definition GetLatestQuote ::
  "Env \<Rightarrow> string \<Rightarrow> event list \<Rightarrow> (error + real) \<times> event list" where
  "GetLatestQuote env symbol tr =
     (if symbol = [] then (Inl ErrSymbolEmpty, tr)
      else (case latestQuote env of
              Inl e \<Rightarrow> (Inl (Wrapped ''failed to get latest quote'' e), tr @ [Call_GetLatestQuote])
            | Inr ask \<Rightarrow> (Inr ask, tr @ [Call_GetLatestQuote])))"

definition GetAllPositions :: "Env \<Rightarrow> event list \<Rightarrow> (error + Position list) \<times> event list" where
  "GetAllPositions env tr =
     (case positions env (length (filter (\<lambda>ev. ev = Call_GetPositions) tr)) of
        Inl e \<Rightarrow> (Inl (Wrapped ''failed to get positions'' e), tr @ [Call_GetPositions])
      | Inr ps \<Rightarrow> (Inr ps, tr @ [Call_GetPositions]))"

definition GetNonMarginableBuyingPower :: "Env \<Rightarrow> event list \<Rightarrow> (error + real) \<times> event list" where
  "GetNonMarginableBuyingPower env tr =
     (case account env of
        Inl e \<Rightarrow> (Inl (Wrapped ''failed to get account'' e), tr @ [Call_GetAccount])
      | Inr buyingPower \<Rightarrow> (Inr buyingPower, tr @ [Call_GetAccount]))"

definition isOptionOn :: "string \<Rightarrow> Position \<Rightarrow> bool" where
  "isOptionOn underlyingTicker position =
     (case ParseOptionTicker (Symbol position) of
        Inl e \<Rightarrow> False
      | Inr parsedOption \<Rightarrow> Underlying parsedOption = underlyingTicker)"

definition GetOptionsPositions ::
  "Env \<Rightarrow> string \<Rightarrow> event list \<Rightarrow> (error + Position list) \<times> event list" where
  "GetOptionsPositions env underlyingTicker tr =
     (if underlyingTicker = [] then (Inl ErrUnderlyingEmpty, tr)
      else (case GetAllPositions env tr of
              (Inl e, tr1) \<Rightarrow> (Inl (Wrapped ''failed to get all positions'' e), tr1)
            | (Inr allPositions, tr1) \<Rightarrow>
                (Inr (filter (isOptionOn underlyingTicker) allPositions), tr1)))"

subsection \<open>GetCallLeapsByDelta\<close>

text \<open>
  The \<^verbatim>\<open>range\<close> loop over the chain: an entry without greeks, with a delta below
  the minimum or with a symbol that does not parse is skipped. The module is built
  with Go 1.24, where every iteration has its own \<^verbatim>\<open>snapshot\<close> variable, so the
  pointer kept in a candidate is the entry's own snapshot.
\<close>

fun collectValid :: "real \<Rightarrow> (string \<times> OptionSnapshot) list \<Rightarrow> Candidate list" where
  "collectValid minDelta [] = []"
| "collectValid minDelta ((symbol, snapshot) # rest) =
     (case Greeks snapshot of
        None \<Rightarrow> collectValid minDelta rest
      | Some g \<Rightarrow>
          if minDelta \<le> Delta g then
            (case ParseOptionTicker symbol of
               Inl e \<Rightarrow> collectValid minDelta rest
             | Inr option \<Rightarrow>
                 \<lparr>c_symbol = symbol, c_snapshot = snapshot, c_delta = Delta g,
                  c_expiry = Expiry option\<rparr> # collectValid minDelta rest)
          else collectValid minDelta rest)"

fun minDeltaLoop :: "Candidate \<Rightarrow> Candidate list \<Rightarrow> Candidate" where
  "minDeltaLoop minDeltaOption [] = minDeltaOption"
| "minDeltaLoop minDeltaOption (option # rest) =
     minDeltaLoop (if c_delta option < c_delta minDeltaOption then option else minDeltaOption) rest"

definition GetCallLeapsByDelta ::
  "Env \<Rightarrow> string \<Rightarrow> real \<Rightarrow> event list \<Rightarrow> (error + string \<times> OptionSnapshot) \<times> event list" where
  "GetCallLeapsByDelta env underlyingTicker minDelta tr =
     (if underlyingTicker = [] then (Inl ErrUnderlyingEmpty, tr)
      else if minDelta \<le> 0 then (Inl ErrMinDeltaNotPositive, tr)
      else
        (case optionChain env of
           Inl e \<Rightarrow> (Inl (Wrapped ''failed to get option chain'' e), tr @ [Call_GetOptionChain])
         | Inr chain \<Rightarrow>
             if length chain = 0 then (Inl ErrNoCallLeaps, tr @ [Call_GetOptionChain])
             else
               let validOptions = collectValid minDelta chain in
               if length validOptions = 0
               then (Inl ErrNoCallLeapsWithDelta, tr @ [Call_GetOptionChain])
               else
                 (case sortSlice env validOptions of
                    [] \<Rightarrow> (Inl ErrIndexOutOfRange, tr @ [Call_GetOptionChain])
                  | first # others \<Rightarrow>
                      let earliestExpiry = c_expiry first;
                          earliestExpiryOptions =
                            filter (\<lambda>option. c_expiry option = earliestExpiry) (first # others)
                      in (case earliestExpiryOptions of
                            [] \<Rightarrow> (Inl ErrIndexOutOfRange, tr @ [Call_GetOptionChain])
                          | m # ms \<Rightarrow>
                              let minDeltaOption = minDeltaLoop m (m # ms) in
                              (Inr (c_symbol minDeltaOption, c_snapshot minDeltaOption),
                               tr @ [Call_GetOptionChain])))))"

subsection \<open>float64 arithmetic\<close>

text \<open>
  The order planner truncates what it computes to whole cents and whole contracts, so
  the rounding of its \<^verbatim>\<open>float64\<close> operations decides its results. The operations
  follow IEEE 754 binary64, as Go performs them on the amd64 target of the Makefile
  (no fused multiply-add): an operation delivers its exact result rounded to the
  nearest number with a 53-bit significand, a tie going to the even significand
  (\<open>roundEven\<close>, \<open>f64_round\<close>). A rounded result of magnitude \<open>2 ^ 1024\<close> or more is
  an infinity; below \<open>2 powi - 1022\<close> the grid of the subnormal numbers, of step
  \<open>2 powi - 1074\<close>, is used. \<open>f64_exponent a\<close> is the binary exponent of the magnitude
  \<open>a\<close> kept within \<open>- 1022 .. 1023\<close>; \<open>findExp\<close> finds it by counting down from 1023.
  Zero carries no sign, so a quotient by zero takes the sign of the dividend.

  \<open>f64_of_int\<close> is the conversion \<^verbatim>\<open>float64(n)\<close>. \<open>go_int\<close> is the conversion
  \<^verbatim>\<open>int(x)\<close> to the 64-bit \<^verbatim>\<open>int\<close>: truncation toward zero when the result fits.
  For a NaN, an infinity or a value out of range Go leaves the result to the
  implementation; on amd64 it is \<open>- (2 ^ 63)\<close>. \<open>f64_0_99\<close> is the constant \<^verbatim>\<open>0.99\<close>
  of the source, converted to \<^verbatim>\<open>float64\<close>.
\<close>

definition roundEven :: "real \<Rightarrow> int" where
  "roundEven x =
     (let f = \<lfloor>x\<rfloor>; r = x - real_of_int f in
      if r < 1 / 2 then f else if 1 / 2 < r then f + 1 else if even f then f else f + 1)"

primrec findExp :: "nat \<Rightarrow> int \<Rightarrow> real \<Rightarrow> int" where
  "findExp 0 e a = e"
| "findExp (Suc n) e a = (if 2 powi e \<le> a then e else findExp n (e - 1) a)"

definition f64_exponent :: "real \<Rightarrow> int" where
  "f64_exponent a = findExp 2045 1023 a"

definition f64_round :: "real \<Rightarrow> float64" where
  "f64_round x =
     (let u = 2 powi (f64_exponent \<bar>x\<bar> - 52);
          y = real_of_int (roundEven (x / u)) * u in
      if 2 ^ 1024 \<le> y then PlusInf else if y \<le> - (2 ^ 1024) then MinusInf else Finite y)"

fun f64_neg :: "float64 \<Rightarrow> float64" where
  "f64_neg (Finite a) = Finite (- a)"
| "f64_neg PlusInf = MinusInf"
| "f64_neg MinusInf = PlusInf"
| "f64_neg NotANumber = NotANumber"

fun f64_mul :: "float64 \<Rightarrow> float64 \<Rightarrow> float64" where
  "f64_mul (Finite a) (Finite b) = f64_round (a * b)"
| "f64_mul NotANumber y = NotANumber"
| "f64_mul x NotANumber = NotANumber"
| "f64_mul (Finite a) y = (if a = 0 then NotANumber else if 0 < a then y else f64_neg y)"
| "f64_mul x (Finite b) = (if b = 0 then NotANumber else if 0 < b then x else f64_neg x)"
| "f64_mul x y = (if x = y then PlusInf else MinusInf)"

fun f64_quo :: "float64 \<Rightarrow> float64 \<Rightarrow> float64" where
  "f64_quo (Finite a) (Finite b) =
     (if b = 0 then (if a = 0 then NotANumber else if 0 < a then PlusInf else MinusInf)
      else f64_round (a / b))"
| "f64_quo NotANumber y = NotANumber"
| "f64_quo x NotANumber = NotANumber"
| "f64_quo (Finite a) y = Finite 0"
| "f64_quo x (Finite b) = (if 0 \<le> b then x else f64_neg x)"
| "f64_quo x y = NotANumber"

fun f64_add :: "float64 \<Rightarrow> float64 \<Rightarrow> float64" where
  "f64_add (Finite a) (Finite b) = f64_round (a + b)"
| "f64_add NotANumber y = NotANumber"
| "f64_add x NotANumber = NotANumber"
| "f64_add (Finite a) y = y"
| "f64_add x (Finite b) = x"
| "f64_add x y = (if x = y then x else NotANumber)"

definition f64_of_int :: "int \<Rightarrow> float64" where
  "f64_of_int n = f64_round (real_of_int n)"

definition go_int :: "float64 \<Rightarrow> int" where
  "go_int x =
     (case x of
        Finite r \<Rightarrow>
          (let t = (if 0 \<le> r then \<lfloor>r\<rfloor> else \<lceil>r\<rceil>) in
           if - (2 ^ 63) \<le> t \<and> t < 2 ^ 63 then t else - (2 ^ 63))
      | PlusInf \<Rightarrow> - (2 ^ 63)
      | MinusInf \<Rightarrow> - (2 ^ 63)
      | NotANumber \<Rightarrow> - (2 ^ 63))"

definition f64_0_99 :: float64 where
  "f64_0_99 = f64_round 0.99"

subsection \<open>PlaceOptionLimitOrderWithTakeProfit\<close>

text \<open>
  The budget, the percentage and the two prices of the quote are finite \<^verbatim>\<open>float64\<close>
  values. Each arithmetic step of the source is one rounded operation, in the order of
  the source. The request carries the three \<^verbatim>\<open>float64\<close> values that the source
  hands to \<^verbatim>\<open>decimal.NewFromFloat\<close>.
\<close>

definition PlaceOptionLimitOrderWithTakeProfit ::
  "Env \<Rightarrow> real \<Rightarrow> string \<Rightarrow> OptionQuote option \<Rightarrow> real \<Rightarrow> event list
     \<Rightarrow> (error + Order) \<times> event list" where
  "PlaceOptionLimitOrderWithTakeProfit env investmentSize optionSymbol optionQuote
       takeProfitPercentage tr =
     (if optionSymbol = [] then (Inl ErrOptionSymbolEmpty, tr)
      else
        (case optionQuote of
           None \<Rightarrow> (Inl ErrOptionQuoteNil, tr)
         | Some q \<Rightarrow>
             if investmentSize \<le> 0 then (Inl ErrInvestmentSizeNotPositive, tr)
             else if takeProfitPercentage \<le> 0 then (Inl ErrTakeProfitNotPositive, tr)
             else if BidPrice q \<le> 0 \<or> AskPrice q \<le> 0 then (Inl ErrInvalidBidAsk, tr)
             else
               let limitPrice0 = f64_mul (Finite (AskPrice q)) f64_0_99;
                   limitPrice =
                     f64_quo (f64_of_int (go_int (f64_mul limitPrice0 (Finite 100)))) (Finite 100);
                   takeProfitPrice0 =
                     f64_mul limitPrice
                       (f64_add (Finite 1) (f64_quo (Finite takeProfitPercentage) (Finite 100)));
                   takeProfitPrice =
                     f64_quo (f64_of_int (go_int (f64_mul takeProfitPrice0 (Finite 100))))
                       (Finite 100);
                   quantity =
                     go_int (f64_quo (Finite investmentSize)
                               (f64_mul (Finite (AskPrice q)) (Finite 100)))
               in
               if quantity \<le> 0 then (Inl ErrQuantityNotPositive, tr)
               else
                 let req = \<lparr>ReqSymbol = optionSymbol, Qty = f64_of_int quantity,
                            LimitPrice = limitPrice, TakeProfit = takeProfitPrice\<rparr>
                 in (case placeOrder env req of
                       Inl e \<Rightarrow> (Inl (Wrapped ''failed to place bracket order'' e),
                                 tr @ [Call_PlaceOrder req])
                     | Inr order \<Rightarrow> (Inr order, tr @ [Call_PlaceOrder req]))))"

subsection \<open>The strategy TwoPercentDown\<close>

definition ticker :: string where
  "ticker = ''QQQ''"

record TwoPercentDown =
  maxActiveOptions :: int

text \<open>
  The constructor; \<open>parsed\<close> is the value of \<^verbatim>\<open>MAX_ACTIVE_OPTIONS\<close> when the variable is
  set and \<^verbatim>\<open>strconv.Atoi\<close> reads it.
\<close>

definition NewTwoPercentDown :: "int option \<Rightarrow> TwoPercentDown" where
  "NewTwoPercentDown parsed =
     \<lparr>maxActiveOptions = (case parsed of None \<Rightarrow> 5 | Some n \<Rightarrow> if 0 < n then n else 5)\<rparr>"

definition calculateInvestmentSize ::
  "TwoPercentDown \<Rightarrow> Env \<Rightarrow> event list \<Rightarrow> (error + real) \<times> event list" where
  "calculateInvestmentSize s env tr =
     (case GetOptionsPositions env ticker tr of
        (Inl e, tr1) \<Rightarrow> (Inl (Wrapped ''failed to get QQQ option positions'' e), tr1)
      | (Inr openOptions, tr1) \<Rightarrow>
          let remainingSpots = maxActiveOptions s - int (length openOptions) in
          if remainingSpots \<le> 0 then (Inl ErrNoRemainingSpots, tr1)
          else
            (case GetNonMarginableBuyingPower env tr1 of
               (Inl e, tr2) \<Rightarrow>
                 (Inl (Wrapped ''failed to get non-marginable buying power'' e), tr2)
             | (Inr buyingPower, tr2) \<Rightarrow>
                 (Inr (buyingPower / real_of_int remainingSpots), tr2)))"

definition Run :: "TwoPercentDown \<Rightarrow> Env \<Rightarrow> event list \<Rightarrow> error option \<times> event list" where
  "Run s env tr =
     (case GetLastTradingDayClose env ticker tr of
        (Inl e, tr1) \<Rightarrow> Failure (Wrapped ''failed to get the close of yesterday'' e) tr1
      | (Inr yesterdayClose, tr1) \<Rightarrow>
          (case GetLatestQuote env ticker tr1 of
             (Inl e, tr2) \<Rightarrow> Failure (Wrapped ''failed to get latest quote'' e) tr2
           | (Inr currentPrice, tr2) \<Rightarrow>
               let changePercent = ((currentPrice - yesterdayClose) / yesterdayClose) * 100 in
               if changePercent \<le> - 2.0 then
                 (case GetOptionsPositions env ticker tr2 of
                    (Inl e, tr3) \<Rightarrow> Failure (Wrapped ''failed to get QQQ option positions'' e) tr3
                  | (Inr openOptions, tr3) \<Rightarrow>
                      if maxActiveOptions s \<le> int (length openOptions) then MaxActiveOptions tr3
                      else
                        (case GetCallLeapsByDelta env ticker 0.60 tr3 of
                           (Inl e, tr4) \<Rightarrow>
                             Failure (Wrapped ''failed to get call LEAPS option'' e) tr4
                         | (Inr (optionSymbol, optionSnapshot), tr4) \<Rightarrow>
                             (case calculateInvestmentSize s env tr4 of
                                (Inl e, tr5) \<Rightarrow>
                                  Failure (Wrapped ''failed to calculate investment size'' e) tr5
                              | (Inr investmentSize, tr5) \<Rightarrow>
                                  (case PlaceOptionLimitOrderWithTakeProfit env investmentSize
                                          optionSymbol (LatestQuote optionSnapshot) 50.0 tr5 of
                                     (Inl e, tr6) \<Rightarrow>
                                       (Some (Wrapped ''failed to place order'' e), tr6)
                                   | (Inr order, tr6) \<Rightarrow> OrderPlaced tr6))))
               else NoGapDown tr2))"

subsection \<open>Vocabulary of the statements\<close>

text \<open>
  A chain entry qualifies when it has greeks, its delta reaches the minimum and its
  symbol parses; \<open>candidateOf\<close> is the candidate the loop of \<^verbatim>\<open>GetCallLeapsByDelta\<close>
  builds from a qualifying entry.
\<close>

definition qualifies :: "real \<Rightarrow> string \<times> OptionSnapshot \<Rightarrow> bool" where
  "qualifies minDelta entry =
     (case Greeks (snd entry) of
        None \<Rightarrow> False
      | Some g \<Rightarrow> minDelta \<le> Delta g \<and> isOK (ParseOptionTicker (fst entry)))"

definition entryDelta :: "string \<times> OptionSnapshot \<Rightarrow> real" where
  "entryDelta entry = (case Greeks (snd entry) of None \<Rightarrow> 0 | Some g \<Rightarrow> Delta g)"

definition entryExpiry :: "string \<times> OptionSnapshot \<Rightarrow> Date" where
  "entryExpiry entry =
     (case ParseOptionTicker (fst entry) of
        Inl e \<Rightarrow> \<lparr>Year = 0, Month = 0, Day = 0\<rparr>
      | Inr option \<Rightarrow> Expiry option)"

definition candidateOf :: "string \<times> OptionSnapshot \<Rightarrow> Candidate" where
  "candidateOf entry =
     \<lparr>c_symbol = fst entry, c_snapshot = snd entry, c_delta = entryDelta entry,
      c_expiry = entryExpiry entry\<rparr>"

text \<open>A \<^verbatim>\<open>float64\<close> that is not negative: a NaN counts, the negative infinity does not.\<close>

fun f64_not_negative :: "float64 \<Rightarrow> bool" where
  "f64_not_negative (Finite r) = (0 \<le> r)"
| "f64_not_negative MinusInf = False"
| "f64_not_negative PlusInf = True"
| "f64_not_negative NotANumber = True"

subsection \<open>Example data\<close>

text \<open>
  The fixtures of the examples: an account with three open QQQ call options and one SPY
  stock position, a quote of bid 12.00 and ask 12.34 (\<open>ask_12_34\<close> is the \<^verbatim>\<open>float64\<close>
  nearest to 12.34, which is what the code receives), and the chain A (delta 0.65, expiry
  2025-01-17), B (delta 0.70, expiry 2025-01-17), C (delta 0.62, expiry 2024-06-21), followed by
  an entry without greeks and an entry whose symbol does not parse. Yesterday's close
  is 100, the latest quote 97.9, the buying power 1000.
\<close>

definition examplePositions :: "Position list" where
  "examplePositions =
     [\<lparr>Symbol = ''QQQ250117C00400000''\<rparr>, \<lparr>Symbol = ''SPY''\<rparr>,
      \<lparr>Symbol = ''QQQ250117C00410000''\<rparr>, \<lparr>Symbol = ''QQQ250117C00420000''\<rparr>]"

definition fullPositions :: "Position list" where
  "fullPositions =
     examplePositions @ [\<lparr>Symbol = ''QQQ250117C00430000''\<rparr>, \<lparr>Symbol = ''QQQ250117C00440000''\<rparr>]"

definition ask_12_34 :: real where
  "ask_12_34 = 3473401212609495 / 2 ^ 48"

definition exampleQuote :: OptionQuote where
  "exampleQuote = \<lparr>BidPrice = 12.00, AskPrice = ask_12_34\<rparr>"

definition exampleSnapshot :: "real \<Rightarrow> OptionSnapshot" where
  "exampleSnapshot d =
     \<lparr>LatestQuote = Some \<lparr>BidPrice = 12.00, AskPrice = ask_12_34\<rparr>,
      Greeks = Some \<lparr>Delta = d\<rparr>\<rparr>"

definition exampleChain :: "(string \<times> OptionSnapshot) list" where
  "exampleChain =
     [(''QQQ250117C00400000'', exampleSnapshot 0.65),
      (''QQQ250117C00410000'', exampleSnapshot 0.70),
      (''QQQ240621C00420000'', exampleSnapshot 0.62),
      (''QQQ240621C00430000'', \<lparr>LatestQuote = Some exampleQuote, Greeks = None\<rparr>),
      (''XYZ'', exampleSnapshot 0.90)]"

definition tieChain :: "(string \<times> OptionSnapshot) list" where
  "tieChain =
     [(''QQQ250117C00400000'', exampleSnapshot 0.65),
      (''QQQ250117C00410000'', exampleSnapshot 0.65)]"

definition exampleEnv :: Env where
  "exampleEnv =
     \<lparr>lastTradingDayClose = Inr 100, latestQuote = Inr 97.9,
      positions = (\<lambda>k. Inr examplePositions), optionChain = Inr exampleChain,
      sortSlice = insertionSort, account = Inr 1000,
      placeOrder = (\<lambda>req. Inr \<lparr>ID = ''order-1''\<rparr>)\<rparr>"

text \<open>
  The same world, except that two more options on the ticker have been opened by the time
  the sizer asks for the positions.
\<close>

definition lateEnv :: Env where
  "lateEnv =
     exampleEnv\<lparr>positions := \<lambda>k. if k = 0 then Inr examplePositions else Inr fullPositions\<rparr>"

section \<open>Properties\<close>

subsection \<open>The strike: ParseFloat on digit strings\<close>

lemma isDigit_not_special:
  "isDigit c \<Longrightarrow> c \<noteq> CHR ''+'' \<and> c \<noteq> CHR ''-'' \<and> c \<noteq> CHR ''i'' \<and> c \<noteq> CHR ''I'' \<and>
     c \<noteq> CHR ''n'' \<and> c \<noteq> CHR ''N'' \<and> c \<noteq> CHR ''_'' \<and> c \<noteq> CHR ''.'' \<and> c \<noteq> CHR ''x'' \<and> c \<noteq> CHR ''X''"
  by (auto simp: isDigit_def)

lemma readMantissa_digits:
  "list_all isDigit s \<Longrightarrow>
   readMantissa False st s =
     (st\<lparr>sawdigits := sawdigits st \<or> s \<noteq> [],
         mantissa := foldl (\<lambda>m c. m * 10 + digitVal c) (mantissa st) s,
         fracDigits := fracDigits st + (if sawdot st then length s else 0)\<rparr>, [])"
proof (induction s arbitrary: st)
  case Nil
  then show ?case by simp
next
  case (Cons c cs)
  then have d: "isDigit c" and ds: "list_all isDigit cs" by simp_all
  from d have ne: "c \<noteq> CHR ''_''" "c \<noteq> CHR ''.''" using isDigit_not_special by blast+
  show ?case using d ne Cons.IH[OF ds] by simp
qed

lemma digits_bound:
  "list_all isDigit s \<Longrightarrow> foldl (\<lambda>m c. m * 10 + digitVal c) m s < (m + 1) * 10 ^ length s"
proof (induction s arbitrary: m)
  case Nil then show ?case by simp
next
  case (Cons c cs)
  then have ds: "list_all isDigit cs" by simp
  from Cons.prems have "isDigit c" by simp
  then have d: "digitVal c \<le> 9" by (auto simp: isDigit_def digitVal_def)
  have "foldl (\<lambda>m c. m * 10 + digitVal c) (m * 10 + digitVal c) cs < (m * 10 + digitVal c + 1) * 10 ^ length cs"
    using Cons.IH[OF ds] .
  also have "\<dots> \<le> ((m + 1) * 10) * 10 ^ length cs" using d by (intro mult_right_mono) auto
  finally show ?case by (simp add: algebra_simps)
qed

lemma readFloat_digits:
  assumes "list_all isDigit s" "s \<noteq> []"
  shows "readFloat s = Some (False, False, foldl (\<lambda>m c. m * 10 + digitVal c) 0 s, 0, length s)"
proof -
  obtain c cs where s: "s = c # cs" using assms(2) by (cases s) auto
  have d: "isDigit c" and ds: "list_all isDigit cs" using assms(1) s by simp_all
  note nc = isDigit_not_special[OF d]
  have rm: "readMantissa False
              \<lparr>sawdot = False, sawdigits = False, underscores = False, mantissa = 0, fracDigits = 0\<rparr>
              (c # cs) =
            (\<lparr>sawdot = False, sawdigits = True, underscores = False,
              mantissa = foldl (\<lambda>m c. m * 10 + digitVal c) 0 (c # cs), fracDigits = 0\<rparr>, [])"
    using readMantissa_digits[OF assms(1)[unfolded s]] by simp
  show ?thesis
  proof (cases cs)
    case Nil
    then show ?thesis using nc unfolding s readFloat_def
      by (simp add: Let_def readExponent_def rm[unfolded Nil] del: readMantissa.simps)
  next
    case (Cons e es)
    then have "isDigit e" using ds by simp
    note ne = isDigit_not_special[OF this]
    show ?thesis unfolding s readFloat_def Cons
      using nc ne by (simp add: Let_def readExponent_def rm[unfolded Cons] del: readMantissa.simps)
  qed
qed

lemma ParseFloat_digits:
  assumes "list_all isDigit s" "s \<noteq> []" "length s \<le> 8"
  shows "ParseFloat s = Inr (Finite (real (foldl (\<lambda>m c. m * 10 + digitVal c) 0 s)))"
proof -
  obtain c cs where s: "s = c # cs" using assms(2) by (cases s) auto
  have d: "isDigit c" using assms(1) s by simp
  have sp: "special s = None" using d isDigit_not_special[OF d] by (simp add: special_def s)
  let ?m = "foldl (\<lambda>m c. m * 10 + digitVal c) 0 s"
  have "?m < 10 ^ length s" using digits_bound[OF assms(1), of 0] by simp
  also have "\<dots> \<le> (10::nat) ^ 8" using assms(3) by (intro power_increasing) auto
  finally have "real ?m < real (10 ^ 8)" by (simp only: of_nat_less_iff)
  then have b: "real ?m < 10 ^ 8" by simp
  have "(10::real) ^ 8 \<le> 2 ^ 1024 - 2 ^ 970" by simp
  then have "\<not> (2 ^ 1024 - 2 ^ 970 \<le> real ?m)" using b by linarith
  then show ?thesis using sp readFloat_digits[OF assms(1,2)] by (simp add: ParseFloat_def scaled_def)
qed

subsection \<open>The expiry: time.Parse on the six date bytes\<close>

lemma isDigit_digitVal_le: "isDigit c \<Longrightarrow> digitVal c \<le> 9"
  by (auto simp: isDigit_def digitVal_def)

lemma length6E:
  assumes "length ds = 6"
  obtains a b c d e f where "ds = [a, b, c, d, e, f]"
proof -
  from assms obtain a r1 where 1: "ds = a # r1" "length r1 = 5" by (cases ds) auto
  then obtain b r2 where 2: "r1 = b # r2" "length r2 = 4" by (cases r1) auto
  then obtain c r3 where 3: "r2 = c # r3" "length r3 = 3" by (cases r2) auto
  then obtain d r4 where 4: "r3 = d # r4" "length r4 = 2" by (cases r3) auto
  then obtain e r5 where 5: "r4 = e # r5" "length r5 = 1" by (cases r4) auto
  then obtain f where 6: "r5 = [f]" by (cases r5) auto
  show ?thesis using that 1 2 3 4 5 6 by simp
qed

lemma time_Parse_valid:
  assumes "validYYMMDD ds"
  shows "time_Parse (''20'' @ take 2 ds @ ''-'' @ take 2 (drop 2 ds) @ ''-'' @ take 2 (drop 4 ds))
         = Inr (dateOfYYMMDD ds)"
proof -
  from assms have "length ds = 6" by (simp add: validYYMMDD_def)
  then obtain a b c d e f where ds: "ds = [a, b, c, d, e, f]" by (rule length6E)
  have two: "isDigit (CHR ''2'')" "isDigit (CHR ''0'')" "digitVal (CHR ''2'') = 2" "digitVal (CHR ''0'') = 0"
    by (simp_all add: isDigit_def digitVal_def)
  show ?thesis using assms two unfolding ds
    by (auto simp: time_Parse_def validYYMMDD_def validDate_def dateOfYYMMDD_def twoDigits_def)
qed

lemma time_Parse_invalid:
  assumes "length ds = 6" "\<not> validYYMMDD ds"
  shows "\<not> isOK (time_Parse (''20'' @ take 2 ds @ ''-'' @ take 2 (drop 2 ds) @ ''-'' @ take 2 (drop 4 ds)))"
proof -
  from assms obtain a b c d e f where ds: "ds = [a, b, c, d, e, f]" by (elim length6E)
  have two: "isDigit (CHR ''2'')" "isDigit (CHR ''0'')" "digitVal (CHR ''2'') = 2" "digitVal (CHR ''0'') = 0"
    by (simp_all add: isDigit_def digitVal_def)
  have le: "isDigit a \<Longrightarrow> isDigit b \<Longrightarrow> digitVal a * 10 + digitVal b \<le> 99"
    using isDigit_digitVal_le[of a] isDigit_digitVal_le[of b] by linarith
  show ?thesis using assms(2) two le unfolding ds
    by (auto simp: time_Parse_def validYYMMDD_def validDate_def dateOfYYMMDD_def twoDigits_def isOK_def)
qed

subsection \<open>ParseOptionTicker, step by step\<close>

lemma isOK_simps [simp]: "isOK (Inr v) = True" "isOK (Inl e) = False"
  by (simp_all add: isOK_def)

lemma ParseOptionTicker_steps:
  assumes "15 \<le> length symbol"
  shows "ParseOptionTicker symbol =
     (case ParseFloat (drop (length symbol - 8) symbol) of
        Inl e \<Rightarrow> Inl (ErrInvalidStrike e)
      | Inr strikeFloat \<Rightarrow>
          if symbol ! (length symbol - 9) \<noteq> CHR ''C'' \<and> symbol ! (length symbol - 9) \<noteq> CHR ''P''
          then Inl (ErrInvalidOptionType (symbol ! (length symbol - 9)))
          else
            (case time_Parse (''20'' @ take 2 (take 6 (drop (length symbol - 15) symbol)) @ ''-'' @
                     take 2 (drop 2 (take 6 (drop (length symbol - 15) symbol))) @ ''-'' @
                     take 2 (drop 4 (take 6 (drop (length symbol - 15) symbol)))) of
               Inl e \<Rightarrow> Inl (ErrInvalidExpiration e)
             | Inr expiry \<Rightarrow>
                 Inr \<lparr>Underlying = take (length symbol - 15) symbol, Expiry = expiry,
                      Type = [symbol ! (length symbol - 9)],
                      Strike = f64_div strikeFloat 1000, Ticker = symbol\<rparr>))"
proof -
  let ?n = "length symbol"
  have ne: "symbol \<noteq> []" using assms by auto
  have l1: "length (take (?n - 8) symbol) = ?n - 8" by simp
  have l2: "take (?n - 8) symbol ! (?n - 8 - 1) = symbol ! (?n - 9)" using assms by simp
  have l3: "take (?n - 8 - 1) (take (?n - 8) symbol) = take (?n - 9) symbol"
    by (simp add: min_def)
  have l4: "length (take (?n - 9) symbol) = ?n - 9" by simp
  have l5: "drop (?n - 9 - 6) (take (?n - 9) symbol) = take 6 (drop (?n - 15) symbol)"
    using assms by (simp add: drop_take)
  have l6: "take (?n - 9 - 6) (take (?n - 9) symbol) = take (?n - 15) symbol"
    by (simp add: min_def)
  have c: "\<not> ?n < 8" "\<not> ?n - 8 < 1" "\<not> ?n - 9 < 6" using assms by auto
  show ?thesis
    unfolding ParseOptionTicker_def Let_def l1 l2 l3 l4 l5 l6
    by (simp only: ne c if_False split: sum.splits) simp
qed

lemma ParseOptionTicker_short:
  assumes "length symbol < 15"
  shows "\<not> isOK (ParseOptionTicker symbol)"
proof -
  let ?n = "length symbol"
  have l1: "length (take (?n - 8) symbol) = ?n - 8" by simp
  have l3: "take (?n - 8 - 1) (take (?n - 8) symbol) = take (?n - 9) symbol"
    by (simp add: min_def)
  have l4: "length (take (?n - 9) symbol) = ?n - 9" by simp
  have c: "?n - 9 < 6" using assms by auto
  show ?thesis
    unfolding ParseOptionTicker_def Let_def l1 l3 l4
    by (simp only: c if_True split: sum.splits if_splits) simp
qed

lemma ParseOptionTicker_ok_iff:
  "isOK (ParseOptionTicker symbol) \<longleftrightarrow>
     15 \<le> length symbol \<and>
     isOK (ParseFloat (drop (length symbol - 8) symbol)) \<and>
     (symbol ! (length symbol - 9) = CHR ''C'' \<or> symbol ! (length symbol - 9) = CHR ''P'') \<and>
     validYYMMDD (take 6 (drop (length symbol - 15) symbol))"
proof (cases "15 \<le> length symbol")
  case False
  then show ?thesis using ParseOptionTicker_short[of symbol] by simp
next
  case True
  define ds where "ds = take 6 (drop (length symbol - 15) symbol)"
  have len: "length ds = 6" using True by (simp add: ds_def)
  note steps = ParseOptionTicker_steps[OF True, folded ds_def]
  show ?thesis
  proof (cases "validYYMMDD ds")
    case v: True
    show ?thesis using True v time_Parse_valid[OF v] unfolding ds_def[symmetric]
      by (simp add: steps split: sum.splits)
  next
    case nv: False
    have "\<not> isOK (time_Parse (''20'' @ take 2 ds @ ''-'' @ take 2 (drop 2 ds) @ ''-'' @ take 2 (drop 4 ds)))"
      using time_Parse_invalid[OF len nv] .
    then show ?thesis using True nv unfolding ds_def[symmetric]
      by (auto simp add: steps isOK_def split: sum.splits)
  qed
qed

lemma ParseOptionTicker_value:
  assumes "15 \<le> length symbol"
    and "ParseFloat (drop (length symbol - 8) symbol) = Inr strikeFloat"
    and "symbol ! (length symbol - 9) = CHR ''C'' \<or> symbol ! (length symbol - 9) = CHR ''P''"
    and "validYYMMDD (take 6 (drop (length symbol - 15) symbol))"
  shows "ParseOptionTicker symbol =
     Inr \<lparr>Underlying = take (length symbol - 15) symbol,
          Expiry = dateOfYYMMDD (take 6 (drop (length symbol - 15) symbol)),
          Type = [symbol ! (length symbol - 9)],
          Strike = f64_div strikeFloat 1000, Ticker = symbol\<rparr>"
proof -
  define ds where "ds = take 6 (drop (length symbol - 15) symbol)"
  note steps = ParseOptionTicker_steps[OF assms(1), folded ds_def]
  have v: "validYYMMDD ds" using assms(4) by (simp add: ds_def)
  show ?thesis unfolding ds_def[symmetric] using assms(2,3) time_Parse_valid[OF v]
    by (auto simp add: steps)
qed

lemma ParseOptionTicker_append:
  assumes "validYYMMDD ds" "t = CHR ''C'' \<or> t = CHR ''P''" "length k = 8" "ParseFloat k = Inr f"
  shows "ParseOptionTicker (u @ ds @ [t] @ k) =
     Inr \<lparr>Underlying = u, Expiry = dateOfYYMMDD ds, Type = [t],
          Strike = f64_div f 1000, Ticker = u @ ds @ [t] @ k\<rparr>"
proof -
  have l6: "length ds = 6" using assms(1) by (simp add: validYYMMDD_def)
  let ?s = "u @ ds @ [t] @ k"
  have n: "length ?s = length u + 15" using l6 assms(3) by simp
  have a: "drop (length ?s - 8) ?s = k" using l6 assms(3) by simp
  have b: "?s ! (length ?s - 9) = t" using l6 assms(3) by (simp add: nth_append)
  have c: "take 6 (drop (length ?s - 15) ?s) = ds" using l6 assms(3) by simp
  have d: "take (length ?s - 15) ?s = u" using l6 assms(3) by simp
  have "15 \<le> length ?s" using n by simp
  from ParseOptionTicker_value[OF this, unfolded a b c d, OF assms(4) assms(2) assms(1)]
  show ?thesis .
qed

lemma digitChar_props: "d < 10 \<Longrightarrow> isDigit (digitChar d) \<and> digitVal (digitChar d) = d"
  by (simp add: digitChar_def isDigit_def digitVal_def)

subsection \<open>The encoder's digits\<close>

lemma digits8:
  fixes n :: nat
  assumes "n < 100000000"
  shows "(((((((n div 10000000 mod 10) * 10 + n div 1000000 mod 10) * 10 + n div 100000 mod 10) * 10
          + n div 10000 mod 10) * 10 + n div 1000 mod 10) * 10 + n div 100 mod 10) * 10
          + n div 10 mod 10) * 10 + n mod 10 = n"
proof -
  have e: "\<And>a::nat. a div 10 * 10 + a mod 10 = a" by simp
  have q7: "n div 10000000 = n div 1000000 div 10" by (simp add: div_mult2_eq[symmetric])
  have q6: "n div 1000000 = n div 100000 div 10" by (simp add: div_mult2_eq[symmetric])
  have q5: "n div 100000 = n div 10000 div 10" by (simp add: div_mult2_eq[symmetric])
  have q4: "n div 10000 = n div 1000 div 10" by (simp add: div_mult2_eq[symmetric])
  have q3: "n div 1000 = n div 100 div 10" by (simp add: div_mult2_eq[symmetric])
  have q2: "n div 100 = n div 10 div 10" by (simp add: div_mult2_eq[symmetric])
  have "n div 10000000 < 10" using assms by (simp add: less_mult_imp_div_less)
  then have t: "n div 10000000 mod 10 = n div 10000000" by simp
  have "(n div 10000000 mod 10) * 10 + n div 1000000 mod 10 =
        n div 10000000 * 10 + n div 1000000 mod 10" by (simp only: t)
  also have "\<dots> = n div 1000000" unfolding q7 by (rule e)
  finally have "(n div 10000000 mod 10) * 10 + n div 1000000 mod 10 = n div 1000000" .
  then have "(((((((n div 10000000 mod 10) * 10 + n div 1000000 mod 10) * 10 + n div 100000 mod 10) * 10
          + n div 10000 mod 10) * 10 + n div 1000 mod 10) * 10 + n div 100 mod 10) * 10
          + n div 10 mod 10) * 10 + n mod 10 =
       (((((n div 1000000 * 10 + n div 100000 mod 10) * 10
          + n div 10000 mod 10) * 10 + n div 1000 mod 10) * 10 + n div 100 mod 10) * 10
          + n div 10 mod 10) * 10 + n mod 10" by (simp only:)
  also have "n div 1000000 * 10 + n div 100000 mod 10 = n div 100000" unfolding q6 by (rule e)
  also have "n div 100000 * 10 + n div 10000 mod 10 = n div 10000" unfolding q5 by (rule e)
  also have "n div 10000 * 10 + n div 1000 mod 10 = n div 1000" unfolding q4 by (rule e)
  also have "n div 1000 * 10 + n div 100 mod 10 = n div 100" unfolding q3 by (rule e)
  also have "n div 100 * 10 + n div 10 mod 10 = n div 10" unfolding q2 by (rule e)
  also have "n div 10 * 10 + n mod 10 = n" by (rule e)
  finally show ?thesis .
qed

lemma digitChar_numeral:
  "digitChar 0 = CHR ''0''" "digitChar (Suc 0) = CHR ''1''" "digitChar 2 = CHR ''2''"
  "digitChar 3 = CHR ''3''" "digitChar 4 = CHR ''4''" "digitChar 5 = CHR ''5''"
  "digitChar 6 = CHR ''6''" "digitChar 7 = CHR ''7''" "digitChar 8 = CHR ''8''"
  "digitChar 9 = CHR ''9''"
  by code_simp+

lemma pad8_props:
  assumes "n < 100000000"
  shows "length (pad8 n) = 8" "list_all isDigit (pad8 n)"
        "foldl (\<lambda>m c. m * 10 + digitVal c) 0 (pad8 n) = n"
proof -
  show "length (pad8 n) = 8" by (simp add: pad8_def)
  show "list_all isDigit (pad8 n)" by (simp add: pad8_def digitChar_props)
  have "foldl (\<lambda>m c. m * 10 + digitVal c) 0 (pad8 n) =
        (((((((n div 10000000 mod 10) * 10 + n div 1000000 mod 10) * 10 + n div 100000 mod 10) * 10
          + n div 10000 mod 10) * 10 + n div 1000 mod 10) * 10 + n div 100 mod 10) * 10
          + n div 10 mod 10) * 10 + n mod 10"
    by (simp add: pad8_def digitChar_props)
  also have "\<dots> = n" using assms by (rule digits8)
  finally show "foldl (\<lambda>m c. m * 10 + digitVal c) 0 (pad8 n) = n" .
qed

lemma daysIn_le: "daysIn m y \<le> 31"
  by (simp add: daysIn_def)

lemma twoDigits_pad:
  assumes "n < 100"
  shows "twoDigits (digitChar (n div 10 mod 10)) (digitChar (n mod 10)) = n"
proof -
  have "n div 10 < 10" using assms by (simp add: less_mult_imp_div_less)
  then have "n div 10 mod 10 = n div 10" by simp
  then have "n div 10 mod 10 * 10 + n mod 10 = n" by simp
  then show ?thesis by (simp add: twoDigits_def digitChar_props)
qed

lemma year_mod:
  assumes "2000 \<le> (y::nat)" "y \<le> 2099"
  shows "2000 + y mod 100 = y"
proof -
  define k where "k = y - 2000"
  have k: "y = 20 * 100 + k" "k < 100" using assms by (simp_all add: k_def)
  have "(20 * 100 + k) mod 100 = k mod 100" by (simp only: mod_mult_self3)
  then show ?thesis unfolding k(1) using k(2) by simp
qed

lemma pad_date:
  assumes "validDate d"
  shows "validYYMMDD (pad2 (Year d mod 100) @ pad2 (Month d) @ pad2 (Day d))"
    and "dateOfYYMMDD (pad2 (Year d mod 100) @ pad2 (Month d) @ pad2 (Day d)) = d"
proof -
  have m: "Month d < 100" and dd: "Day d < 100"
    and y: "2000 \<le> Year d" "Year d \<le> 2099"
    using assms daysIn_le[of "Month d" "Year d"] by (auto simp: validDate_def)
  have yy: "Year d mod 100 < 100" by simp
  have "dateOfYYMMDD (pad2 (Year d mod 100) @ pad2 (Month d) @ pad2 (Day d)) =
        \<lparr>Year = 2000 + twoDigits (digitChar (Year d mod 100 div 10 mod 10))
                                 (digitChar (Year d mod 100 mod 10)),
         Month = twoDigits (digitChar (Month d div 10 mod 10)) (digitChar (Month d mod 10)),
         Day = twoDigits (digitChar (Day d div 10 mod 10)) (digitChar (Day d mod 10))\<rparr>"
    by (simp add: dateOfYYMMDD_def pad2_def)
  also have "\<dots> = \<lparr>Year = Year d, Month = Month d, Day = Day d\<rparr>"
    by (simp only: twoDigits_pad[OF yy] twoDigits_pad[OF m] twoDigits_pad[OF dd] year_mod[OF y])
  also have "\<dots> = d" by simp
  finally have eq: "dateOfYYMMDD (pad2 (Year d mod 100) @ pad2 (Month d) @ pad2 (Day d)) = d" .
  show "dateOfYYMMDD (pad2 (Year d mod 100) @ pad2 (Month d) @ pad2 (Day d)) = d" by (rule eq)
  have dg: "\<And>n. isDigit (digitChar (n mod 10))" by (simp add: digitChar_props)
  have "Year d mod 100 div 10 < 10" by (simp add: less_mult_imp_div_less)
  then have dy: "isDigit (digitChar (Year d mod 100 div 10))" by (simp add: digitChar_props)
  show "validYYMMDD (pad2 (Year d mod 100) @ pad2 (Month d) @ pad2 (Day d))"
    unfolding validYYMMDD_def eq using assms by (simp add: pad2_def dg dy)
qed


subsection \<open>Claims about the codec\<close>

text \<open>
  C6 (round trip). For every underlying string, every expiry date that the \<^verbatim>\<open>YYMMDD\<close>
  field can carry (a calendar date of the years 2000 to 2099), type \<^verbatim>\<open>C\<close> or \<^verbatim>\<open>P\<close> and
  strike with \<open>strike * 1000\<close> an integer of at most 8 digits, parsing the encoded symbol
  succeeds and gives back the underlying, the expiry, the type and the strike. Nothing is
  required of the underlying: the decoder cuts the symbol from its end.
\<close>

theorem ParseOptionTicker_encode_roundtrip:
  assumes "validDate expiry" and "typ = CHR ''C'' \<or> typ = CHR ''P''"
    and "strike = real n / 1000" and "n < 100000000"
  shows "ParseOptionTicker (encodeOptionTicker underlying expiry typ strike) =
     Inr \<lparr>Underlying = underlying, Expiry = expiry, Type = [typ], Strike = Finite strike,
          Ticker = encodeOptionTicker underlying expiry typ strike\<rparr>"
proof -
  have k: "nat \<lfloor>strike * 1000\<rfloor> = n" using assms(3) by simp
  note p8 = pad8_props[OF assms(4)]
  have pf: "ParseFloat (pad8 n) = Inr (Finite (real n))"
  proof -
    have "pad8 n \<noteq> []" using p8(1) by auto
    then show ?thesis using ParseFloat_digits[of "pad8 n"] p8 by simp
  qed
  show ?thesis
    unfolding encodeOptionTicker_def k
    using ParseOptionTicker_append[OF pad_date(1)[OF assms(1)] assms(2) p8(1) pf, of underlying]
    by (simp add: pad_date(2)[OF assms(1)] f64_div_def assms(3))
qed

theorem ParseOptionTicker_encode_roundtrip_witness:
  "validDate \<lparr>Year = 2024, Month = 1, Day = 19\<rparr> \<and>
   (420.125 :: real) = real 420125 / 1000 \<and> (420125 :: nat) < 100000000 \<and>
   encodeOptionTicker ''QQQ'' \<lparr>Year = 2024, Month = 1, Day = 19\<rparr> (CHR ''C'') 420.125
     = ''QQQ240119C00420125'' \<and>
   ParseOptionTicker ''QQQ240119C00420125'' =
     Inr \<lparr>Underlying = ''QQQ'', Expiry = \<lparr>Year = 2024, Month = 1, Day = 19\<rparr>, Type = ''C'',
          Strike = Finite 420.125, Ticker = ''QQQ240119C00420125''\<rparr>"
proof -
  have v: "validDate \<lparr>Year = 2024, Month = 1, Day = 19\<rparr>"
    by (simp add: validDate_def daysIn_def)
  have s: "(420.125 :: real) = real 420125 / 1000" by simp
  have e: "encodeOptionTicker ''QQQ'' \<lparr>Year = 2024, Month = 1, Day = 19\<rparr> (CHR ''C'') 420.125
             = ''QQQ240119C00420125''"
    by (simp add: encodeOptionTicker_def pad2_def pad8_def digitChar_numeral)
  show ?thesis
    using ParseOptionTicker_encode_roundtrip[OF v _ s, of "CHR ''C''" "''QQQ''"] v e by simp
qed

text \<open>
  C7, as stated, fails: a symbol whose last eight bytes are not all digits can parse,
  because the strike is read by \<^verbatim>\<open>strconv.ParseFloat\<close>, which accepts every float
  literal. Here the strike field is \<^verbatim>\<open>420.0000\<close> and the strike comes out as 0.42.
\<close>

theorem ParseOptionTicker_nondigit_strike_parses:
  "ParseOptionTicker ''QQQ240119C420.0000'' =
     Inr \<lparr>Underlying = ''QQQ'', Expiry = \<lparr>Year = 2024, Month = 1, Day = 19\<rparr>, Type = ''C'',
          Strike = Finite 0.42, Ticker = ''QQQ240119C420.0000''\<rparr>"
proof -
  have pf: "ParseFloat ''420.0000'' = Inr (Finite 420)"
    by (simp add: ParseFloat_def special_def readFloat_def readExponent_def Let_def scaled_def
        isDigit_def digitVal_def)
  have v: "validYYMMDD ''240119''"
    by (simp add: validYYMMDD_def validDate_def dateOfYYMMDD_def twoDigits_def isDigit_def
        digitVal_def daysIn_def)
  show ?thesis
    using ParseOptionTicker_append[OF v _ _ pf, of "CHR ''C''" "''QQQ''"]
    by (simp add: dateOfYYMMDD_def twoDigits_def digitVal_def f64_div_def)
qed

text \<open>
  C7 (amended). \<^verbatim>\<open>ParseOptionTicker\<close> fails exactly when the symbol has fewer than 8
  bytes, or \<^verbatim>\<open>strconv.ParseFloat\<close> rejects its last 8 bytes, or no byte precedes them
  or that byte is neither \<^verbatim>\<open>C\<close> nor \<^verbatim>\<open>P\<close>, or fewer than 6 bytes precede the type
  marker or those 6 bytes are not the digits of a calendar date \<^verbatim>\<open>YYMMDD\<close> of the year
  \<open>2000 + YY\<close>. Eight digits are always accepted as a strike; they are sufficient, not
  necessary.
\<close>

theorem ParseOptionTicker_fails_iff:
  "((\<not> isOK (ParseOptionTicker symbol)) =
     (length symbol < 8 \<or>
      \<not> isOK (ParseFloat (drop (length symbol - 8) symbol)) \<or>
      length symbol < 9 \<or>
      (symbol ! (length symbol - 9) \<noteq> CHR ''C'' \<and> symbol ! (length symbol - 9) \<noteq> CHR ''P'') \<or>
      length symbol < 15 \<or>
      \<not> validYYMMDD (take 6 (drop (length symbol - 15) symbol)))) \<and>
   (8 \<le> length symbol \<and> list_all isDigit (drop (length symbol - 8) symbol) \<longrightarrow>
      isOK (ParseFloat (drop (length symbol - 8) symbol)))"
proof
  show "(\<not> isOK (ParseOptionTicker symbol)) =
     (length symbol < 8 \<or>
      \<not> isOK (ParseFloat (drop (length symbol - 8) symbol)) \<or>
      length symbol < 9 \<or>
      (symbol ! (length symbol - 9) \<noteq> CHR ''C'' \<and> symbol ! (length symbol - 9) \<noteq> CHR ''P'') \<or>
      length symbol < 15 \<or>
      \<not> validYYMMDD (take 6 (drop (length symbol - 15) symbol)))"
    unfolding ParseOptionTicker_ok_iff by auto
next
  show "8 \<le> length symbol \<and> list_all isDigit (drop (length symbol - 8) symbol) \<longrightarrow>
      isOK (ParseFloat (drop (length symbol - 8) symbol))"
  proof
    assume a: "8 \<le> length symbol \<and> list_all isDigit (drop (length symbol - 8) symbol)"
    then have l: "length (drop (length symbol - 8) symbol) = 8" by simp
    then have "drop (length symbol - 8) symbol \<noteq> []" by auto
    then show "isOK (ParseFloat (drop (length symbol - 8) symbol))"
      using ParseFloat_digits[of "drop (length symbol - 8) symbol"] a l by simp
  qed
qed

theorem ParseOptionTicker_fails_iff_witness:
  "\<not> isOK (ParseOptionTicker ''QQQ240119X00420000'') \<and>
   \<not> isOK (ParseOptionTicker ''QQQ240230C00420000'') \<and>
   (8 :: nat) \<le> length ''QQQ240119X00420000'' \<and>
   list_all isDigit (drop (length ''QQQ240119X00420000'' - 8) ''QQQ240119X00420000'') \<and>
   isOK (ParseFloat ''00420000'')"
proof -
  have nv: "\<not> validYYMMDD ''240230''"
    by (simp add: validYYMMDD_def validDate_def dateOfYYMMDD_def twoDigits_def isDigit_def
        digitVal_def daysIn_def isLeap_def)
  have d: "list_all isDigit ''00420000''" by (simp add: isDigit_def)
  show ?thesis
    using ParseOptionTicker_fails_iff[of "''QQQ240119X00420000''"]
      ParseOptionTicker_fails_iff[of "''QQQ240230C00420000''"] nv d
    by simp
qed

text \<open>
  C10. A symbol that is nothing but a valid \<^verbatim>\<open>YYMMDD\<close> date, a type letter and eight
  digits parses, with the empty string as its underlying: nothing is required to stand
  before the date. The symbol \<^verbatim>\<open>240119C00420000\<close> is one.
\<close>

theorem ParseOptionTicker_empty_underlying:
  assumes "validYYMMDD ds" and "t = CHR ''C'' \<or> t = CHR ''P''"
    and "length k = 8" and "list_all isDigit k"
  shows "\<exists>opt. ParseOptionTicker (ds @ [t] @ k) = Inr opt \<and> Underlying opt = [] \<and>
                length (ds @ [t] @ k) = 15"
proof -
  have "k \<noteq> []" using assms(3) by auto
  then have pf: "ParseFloat k = Inr (Finite (real (foldl (\<lambda>m c. m * 10 + digitVal c) 0 k)))"
    using ParseFloat_digits[OF assms(4)] assms(3) by simp
  have "length ds = 6" using assms(1) by (simp add: validYYMMDD_def)
  then show ?thesis
    using ParseOptionTicker_append[OF assms(1,2,3) pf, of "[]"] assms(3) by simp
qed

theorem ParseOptionTicker_empty_underlying_witness:
  "validYYMMDD ''240119'' \<and> length ''00420000'' = 8 \<and> list_all isDigit ''00420000'' \<and>
   (\<exists>opt. ParseOptionTicker ''240119C00420000'' = Inr opt \<and> Underlying opt = [] \<and>
          length ''240119C00420000'' = 15)"
proof -
  have v: "validYYMMDD ''240119''"
    by (simp add: validYYMMDD_def validDate_def dateOfYYMMDD_def twoDigits_def isDigit_def
        digitVal_def daysIn_def)
  have d: "list_all isDigit ''00420000''" by (simp add: isDigit_def)
  show ?thesis
    using ParseOptionTicker_empty_underlying[OF v _ _ d, of "CHR ''C''"] v d by simp
qed

subsection \<open>Evaluating the parser on well-formed symbols\<close>

lemma ParseOptionTicker_digits:
  assumes "validYYMMDD ds" and "t = CHR ''C'' \<or> t = CHR ''P''"
    and "length k = 8" and "list_all isDigit k"
  shows "ParseOptionTicker (u @ ds @ [t] @ k) =
     Inr \<lparr>Underlying = u, Expiry = dateOfYYMMDD ds, Type = [t],
          Strike = Finite (real (foldl (\<lambda>m c. m * 10 + digitVal c) 0 k) / 1000),
          Ticker = u @ ds @ [t] @ k\<rparr>"
proof -
  have "k \<noteq> []" using assms(3) by auto
  then have pf: "ParseFloat k = Inr (Finite (real (foldl (\<lambda>m c. m * 10 + digitVal c) 0 k)))"
    using ParseFloat_digits[OF assms(4)] assms(3) by simp
  show ?thesis using ParseOptionTicker_append[OF assms(1,2,3) pf, of u] by (simp add: f64_div_def)
qed

lemma isOptionOn_digits:
  assumes "validYYMMDD ds" and "t = CHR ''C'' \<or> t = CHR ''P''"
    and "length k = 8" and "list_all isDigit k"
  shows "isOptionOn tk \<lparr>Symbol = u @ ds @ [t] @ k\<rparr> = (u = tk)"
  using ParseOptionTicker_digits[OF assms, of u] by (simp add: isOptionOn_def)

lemma validYYMMDD_250117: "validYYMMDD ''250117''"
  by (simp add: validYYMMDD_def validDate_def dateOfYYMMDD_def twoDigits_def isDigit_def
      digitVal_def daysIn_def)

lemma validYYMMDD_240621: "validYYMMDD ''240621''"
  by (simp add: validYYMMDD_def validDate_def dateOfYYMMDD_def twoDigits_def isDigit_def
      digitVal_def daysIn_def)

lemma isOptionOn_QQQ_250117:
  assumes "length k = 8" and "list_all isDigit k"
  shows "isOptionOn ''QQQ'' \<lparr>Symbol = ''QQQ250117C'' @ k\<rparr>"
  using isOptionOn_digits[OF validYYMMDD_250117 _ assms, of "CHR ''C''" "''QQQ''" "''QQQ''"]
  by simp

lemma parse_examples:
  "ParseOptionTicker ''QQQ250117C00400000'' =
     Inr \<lparr>Underlying = ''QQQ'', Expiry = \<lparr>Year = 2025, Month = 1, Day = 17\<rparr>, Type = ''C'',
          Strike = Finite 400, Ticker = ''QQQ250117C00400000''\<rparr>"
  "ParseOptionTicker ''QQQ250117C00410000'' =
     Inr \<lparr>Underlying = ''QQQ'', Expiry = \<lparr>Year = 2025, Month = 1, Day = 17\<rparr>, Type = ''C'',
          Strike = Finite 410, Ticker = ''QQQ250117C00410000''\<rparr>"
  "ParseOptionTicker ''QQQ240621C00420000'' =
     Inr \<lparr>Underlying = ''QQQ'', Expiry = \<lparr>Year = 2024, Month = 6, Day = 21\<rparr>, Type = ''C'',
          Strike = Finite 420, Ticker = ''QQQ240621C00420000''\<rparr>"
  "ParseOptionTicker ''XYZ'' = Inl ErrTooShort"
  using ParseOptionTicker_digits[OF validYYMMDD_250117, of "CHR ''C''" "''00400000''" "''QQQ''"]
    ParseOptionTicker_digits[OF validYYMMDD_250117, of "CHR ''C''" "''00410000''" "''QQQ''"]
    ParseOptionTicker_digits[OF validYYMMDD_240621, of "CHR ''C''" "''00420000''" "''QQQ''"]
  by (simp_all add: isDigit_def digitVal_def dateOfYYMMDD_def twoDigits_def ParseOptionTicker_def)

lemma examplePositions_open:
  "filter (isOptionOn ticker) examplePositions =
     [\<lparr>Symbol = ''QQQ250117C00400000''\<rparr>, \<lparr>Symbol = ''QQQ250117C00410000''\<rparr>,
      \<lparr>Symbol = ''QQQ250117C00420000''\<rparr>]"
proof -
  have a: "isOptionOn ''QQQ'' \<lparr>Symbol = ''QQQ250117C00400000''\<rparr>"
    using isOptionOn_QQQ_250117[of "''00400000''"] by (simp add: isDigit_def)
  have b: "isOptionOn ''QQQ'' \<lparr>Symbol = ''QQQ250117C00410000''\<rparr>"
    using isOptionOn_QQQ_250117[of "''00410000''"] by (simp add: isDigit_def)
  have c: "isOptionOn ''QQQ'' \<lparr>Symbol = ''QQQ250117C00420000''\<rparr>"
    using isOptionOn_QQQ_250117[of "''00420000''"] by (simp add: isDigit_def)
  have d: "\<not> isOptionOn ''QQQ'' \<lparr>Symbol = ''SPY''\<rparr>"
    using ParseOptionTicker_short[of "''SPY''"] by (simp add: isOptionOn_def isOK_def split: sum.splits)
  show ?thesis using a b c d by (simp add: examplePositions_def ticker_def)
qed

lemma fullPositions_open: "length (filter (isOptionOn ticker) fullPositions) = 5"
proof -
  have a: "isOptionOn ''QQQ'' \<lparr>Symbol = ''QQQ250117C00430000''\<rparr>"
    using isOptionOn_QQQ_250117[of "''00430000''"] by (simp add: isDigit_def)
  have b: "isOptionOn ''QQQ'' \<lparr>Symbol = ''QQQ250117C00440000''\<rparr>"
    using isOptionOn_QQQ_250117[of "''00440000''"] by (simp add: isDigit_def)
  show ?thesis using a b by (simp add: fullPositions_def examplePositions_open) (simp add: ticker_def)
qed

subsection \<open>The position sizer\<close>

lemma ticker_nonempty: "ticker \<noteq> []"
  by (simp add: ticker_def)

lemma GetOptionsPositions_ok:
  assumes "positions env (length (filter (\<lambda>ev. ev = Call_GetPositions) tr)) = Inr ps"
    and "tk \<noteq> []"
  shows "GetOptionsPositions env tk tr = (Inr (filter (isOptionOn tk) ps), tr @ [Call_GetPositions])"
  using assms by (simp add: GetOptionsPositions_def GetAllPositions_def)


lemma calculateInvestmentSize_ok:
  assumes "positions env (length (filter (\<lambda>ev. ev = Call_GetPositions) tr)) = Inr ps"
    and "account env = Inr buyingPower"
  shows "calculateInvestmentSize s env tr =
     (if maxActiveOptions s - int (length (filter (isOptionOn ticker) ps)) \<le> 0
      then (Inl ErrNoRemainingSpots, tr @ [Call_GetPositions])
      else (Inr (buyingPower /
                 real_of_int (maxActiveOptions s - int (length (filter (isOptionOn ticker) ps)))),
            tr @ [Call_GetPositions, Call_GetAccount]))"
  using assms(2)
  by (simp add: calculateInvestmentSize_def GetOptionsPositions_ok[OF assms(1) ticker_nonempty]
      GetNonMarginableBuyingPower_def Let_def)

lemma calculateInvestmentSize_trace:
  "set (snd (calculateInvestmentSize s env tr)) \<subseteq> set tr \<union> {Call_GetPositions, Call_GetAccount}"
  by (auto simp add: calculateInvestmentSize_def GetOptionsPositions_def GetAllPositions_def
      GetNonMarginableBuyingPower_def Let_def ticker_def split: sum.splits prod.splits if_splits)

text \<open>
  C3. When the broker answers the positions request with \<open>ps\<close>, of which \<open>openCount\<close>
  are options on the ticker, and reports the buying power, \<^verbatim>\<open>calculateInvestmentSize\<close>
  fails with the no-remaining-spots error exactly when
  \<open>maxActiveOptions - openCount \<le> 0\<close>, and otherwise returns
  \<open>buyingPower / (maxActiveOptions - openCount)\<close>. With 5 allowed and 5 open it fails;
  with 5 allowed, 3 open and a buying power of 1000 the budget is 500.
\<close>

theorem calculateInvestmentSize_budget:
  assumes "positions env (length (filter (\<lambda>ev. ev = Call_GetPositions) tr)) = Inr ps"
    and "account env = Inr buyingPower"
    and "openCount = int (length (filter (isOptionOn ticker) ps))"
  shows "(fst (calculateInvestmentSize s env tr) = Inl ErrNoRemainingSpots
            \<longleftrightarrow> maxActiveOptions s - openCount \<le> 0) \<and>
         (0 < maxActiveOptions s - openCount \<longrightarrow>
            fst (calculateInvestmentSize s env tr) =
              Inr (buyingPower / real_of_int (maxActiveOptions s - openCount)))"
  unfolding calculateInvestmentSize_ok[OF assms(1,2)] assms(3) by simp

theorem calculateInvestmentSize_budget_witness:
  "positions exampleEnv 0 = Inr examplePositions \<and> account exampleEnv = Inr 1000 \<and>
   (3::int) = int (length (filter (isOptionOn ticker) examplePositions)) \<and>
   fst (calculateInvestmentSize \<lparr>maxActiveOptions = 5\<rparr> exampleEnv []) = Inr 500 \<and>
   (5::int) = int (length (filter (isOptionOn ticker) fullPositions)) \<and>
   fst (calculateInvestmentSize \<lparr>maxActiveOptions = 5\<rparr>
          (exampleEnv\<lparr>positions := \<lambda>k. Inr fullPositions\<rparr>) []) = Inl ErrNoRemainingSpots"
  using calculateInvestmentSize_budget[where s = "\<lparr>maxActiveOptions = 5\<rparr>" and tr = "[]"
        and env = exampleEnv and ps = examplePositions and buyingPower = 1000 and openCount = 3]
    calculateInvestmentSize_budget[where s = "\<lparr>maxActiveOptions = 5\<rparr>" and tr = "[]"
        and env = "exampleEnv\<lparr>positions := \<lambda>k. Inr fullPositions\<rparr>" and ps = fullPositions
        and buyingPower = 1000 and openCount = 5]
  by (simp add: examplePositions_open fullPositions_open exampleEnv_def)

text \<open>
  C9, as stated, fails: with a negative buying power and two remaining spots the
  sizer returns a negative budget, not a failure.
\<close>

theorem calculateInvestmentSize_negative_budget:
  "fst (calculateInvestmentSize \<lparr>maxActiveOptions = 5\<rparr> (exampleEnv\<lparr>account := Inr (- 1000)\<rparr>) [])
     = Inr (- 500)"
  using calculateInvestmentSize_ok[where s = "\<lparr>maxActiveOptions = 5\<rparr>" and tr = "[]"
        and env = "exampleEnv\<lparr>account := Inr (- 1000)\<rparr>" and ps = examplePositions
        and buyingPower = "- 1000"]
  by (simp add: examplePositions_open exampleEnv_def)

text \<open>
  C9 (amended). \<^verbatim>\<open>calculateInvestmentSize\<close> validates neither input. With
  \<open>maxActiveOptions \<le> 0\<close> it fails with the no-remaining-spots error (the open count is
  never negative). With a negative buying power and at least one remaining spot it
  returns the negative budget \<open>buyingPower / remainingSpots\<close>. A budget that is not
  positive is refused by \<^verbatim>\<open>PlaceOptionLimitOrderWithTakeProfit\<close>, before any order
  is sent.
\<close>

theorem calculateInvestmentSize_no_validation:
  assumes "positions env (length (filter (\<lambda>ev. ev = Call_GetPositions) tr)) = Inr ps"
    and "account env = Inr buyingPower"
    and "openCount = int (length (filter (isOptionOn ticker) ps))"
  shows "(maxActiveOptions s \<le> 0 \<longrightarrow>
            fst (calculateInvestmentSize s env tr) = Inl ErrNoRemainingSpots) \<and>
         (buyingPower < 0 \<and> 0 < maxActiveOptions s - openCount \<longrightarrow>
            fst (calculateInvestmentSize s env tr) =
              Inr (buyingPower / real_of_int (maxActiveOptions s - openCount)) \<and>
            buyingPower / real_of_int (maxActiveOptions s - openCount) < 0) \<and>
         (investmentSize \<le> 0 \<and> optionSymbol \<noteq> [] \<longrightarrow>
            PlaceOptionLimitOrderWithTakeProfit env investmentSize optionSymbol (Some q)
              takeProfitPercentage tr' = (Inl ErrInvestmentSizeNotPositive, tr'))"
  unfolding calculateInvestmentSize_ok[OF assms(1,2)] assms(3)
  by (auto simp add: PlaceOptionLimitOrderWithTakeProfit_def divide_neg_pos)

theorem calculateInvestmentSize_no_validation_witness:
  "positions (exampleEnv\<lparr>account := Inr (- 1000)\<rparr>) 0 = Inr examplePositions \<and>
   account (exampleEnv\<lparr>account := Inr (- 1000)\<rparr>) = Inr (- 1000) \<and>
   (3::int) = int (length (filter (isOptionOn ticker) examplePositions)) \<and>
   fst (calculateInvestmentSize \<lparr>maxActiveOptions = 0\<rparr> (exampleEnv\<lparr>account := Inr (- 1000)\<rparr>) [])
     = Inl ErrNoRemainingSpots \<and>
   fst (calculateInvestmentSize \<lparr>maxActiveOptions = 5\<rparr> (exampleEnv\<lparr>account := Inr (- 1000)\<rparr>) [])
     = Inr (- 1000 / real_of_int (5 - 3)) \<and>
   PlaceOptionLimitOrderWithTakeProfit (exampleEnv\<lparr>account := Inr (- 1000)\<rparr>) (- 500)
     ''QQQ240621C00420000'' (Some exampleQuote) 50 [] = (Inl ErrInvestmentSizeNotPositive, [])"
  using calculateInvestmentSize_no_validation[where s = "\<lparr>maxActiveOptions = 0\<rparr>" and tr = "[]"
        and env = "exampleEnv\<lparr>account := Inr (- 1000)\<rparr>" and ps = examplePositions
        and buyingPower = "- 1000" and openCount = 3 and investmentSize = "- 500"
        and optionSymbol = "''QQQ240621C00420000''" and q = exampleQuote
        and takeProfitPercentage = 50 and tr' = "[]"]
    calculateInvestmentSize_no_validation[where s = "\<lparr>maxActiveOptions = 5\<rparr>" and tr = "[]"
        and env = "exampleEnv\<lparr>account := Inr (- 1000)\<rparr>" and ps = examplePositions
        and buyingPower = "- 1000" and openCount = 3 and investmentSize = "- 500"
        and optionSymbol = "''QQQ240621C00420000''" and q = exampleQuote
        and takeProfitPercentage = 50 and tr' = "[]"]
  by (simp add: examplePositions_open exampleEnv_def)

subsection \<open>float64 arithmetic\<close>

text \<open>
  Where the binary exponent \<open>e\<close> of \<open>x\<close> is known, \<open>f64_round x\<close> is \<open>x\<close> rounded
  to a multiple of \<open>2 powi (e - 52)\<close>. Rounding and the three operations never make
  a negative result out of operands that are not negative, and rounding a real of
  magnitude below \<open>2 ^ 1023\<close> gives a finite value.
\<close>

lemma findExp_found:
  "2 powi e \<le> a \<Longrightarrow> a < 2 powi (e + 1) \<Longrightarrow> e \<le> e0 \<Longrightarrow> e0 - int n \<le> e \<Longrightarrow> findExp n e0 a = e"
proof (induction n arbitrary: e0)
  case 0
  then show ?case by simp
next
  case (Suc n)
  show ?case
  proof (cases "2 powi e0 \<le> a")
    case True
    then have lt: "(2::real) powi e0 < 2 powi (e + 1)" using Suc.prems(2) by simp
    have "e0 < e + 1"
    proof (rule ccontr)
      assume "\<not> e0 < e + 1"
      then have "(2::real) powi (e + 1) \<le> 2 powi e0" by (intro power_int_increasing) auto
      then show False using lt by simp
    qed
    then show ?thesis using True Suc.prems(3) by simp
  next
    case False
    then have "e \<noteq> e0" using Suc.prems(1) by auto
    then have "findExp n (e0 - 1) a = e"
      using Suc.prems by (intro Suc.IH) auto
    then show ?thesis using False by simp
  qed
qed

lemma f64_exponent_normal:
  "- 1022 \<le> e \<Longrightarrow> e \<le> 1023 \<Longrightarrow> 2 powi e \<le> a \<Longrightarrow> a < 2 powi (e + 1) \<Longrightarrow> f64_exponent a = e"
  unfolding f64_exponent_def by (rule findExp_found) auto

lemma f64_round_normal:
  assumes "- 1022 \<le> e" and "e \<le> 1023" and "2 powi e \<le> \<bar>x\<bar>" and "\<bar>x\<bar> < 2 powi (e + 1)"
    and "roundEven (x / 2 powi (e - 52)) = m"
    and "\<bar>real_of_int m * 2 powi (e - 52)\<bar> < 2 ^ 1024"
  shows "f64_round x = Finite (real_of_int m * 2 powi (e - 52))"
proof -
  have "f64_exponent \<bar>x\<bar> = e" using assms(1-4) by (rule f64_exponent_normal)
  then show ?thesis using assms(5,6) by (simp add: f64_round_def Let_def abs_less_iff)
qed

lemma roundEven_nonneg: "0 \<le> x \<Longrightarrow> 0 \<le> roundEven x"
  by (simp add: roundEven_def Let_def)

lemma f64_round_not_negative: "0 \<le> x \<Longrightarrow> f64_not_negative (f64_round x)"
proof -
  assume x: "0 \<le> x"
  define u :: real where "u = 2 powi (f64_exponent \<bar>x\<bar> - 52)"
  have u: "0 < u" by (simp add: u_def)
  have "0 \<le> x / u" using x u by simp
  then have "0 \<le> real_of_int (roundEven (x / u)) * u"
    using roundEven_nonneg[of "x / u"] u by simp
  then show ?thesis
    unfolding f64_round_def Let_def u_def[symmetric]
    by (auto dest: order_trans[of 0 _ "- (2 ^ 1024)"])
qed

lemma f64_mul_not_negative:
  "f64_not_negative x \<Longrightarrow> f64_not_negative y \<Longrightarrow> f64_not_negative (f64_mul x y)"
  by (cases x; cases y) (auto simp add: f64_round_not_negative)

lemma f64_quo_not_negative:
  "f64_not_negative x \<Longrightarrow> f64_not_negative y \<Longrightarrow> f64_not_negative (f64_quo x y)"
  by (cases x; cases y) (auto simp add: f64_round_not_negative)

lemma f64_add_not_negative:
  "f64_not_negative x \<Longrightarrow> f64_not_negative y \<Longrightarrow> f64_not_negative (f64_add x y)"
  by (cases x; cases y) (auto simp add: f64_round_not_negative)

lemma f64_of_int_not_negative: "0 \<le> n \<Longrightarrow> f64_not_negative (f64_of_int n)"
  by (simp add: f64_of_int_def f64_round_not_negative)

lemma f64_0_99_not_negative: "f64_not_negative f64_0_99"
  by (simp add: f64_0_99_def f64_round_not_negative)

lemma go_int_floor: "0 \<le> r \<Longrightarrow> r < 2 ^ 63 \<Longrightarrow> go_int (Finite r) = \<lfloor>r\<rfloor>"
proof -
  assume r: "0 \<le> r" "r < 2 ^ 63"
  have "\<lfloor>r\<rfloor> < 2 ^ 63" using r(2) by (simp add: floor_less_iff)
  moreover have "0 \<le> \<lfloor>r\<rfloor>" using r(1) by simp
  ultimately show ?thesis using r(1) by (simp add: go_int_def)
qed

lemma findExp_le: "findExp n e0 a \<le> e0"
proof (induction n arbitrary: e0)
  case 0
  then show ?case by simp
next
  case (Suc n)
  have "findExp n (e0 - 1) a \<le> e0 - 1" by (rule Suc.IH)
  then show ?case by simp
qed

lemma findExp_upper: "a < 2 powi (e0 + 1) \<Longrightarrow> a < 2 powi (findExp n e0 a + 1)"
proof (induction n arbitrary: e0)
  case 0
  then show ?case by simp
next
  case (Suc n)
  show ?case
  proof (cases "2 powi e0 \<le> a")
    case True
    then show ?thesis using Suc.prems by simp
  next
    case False
    then have "a < 2 powi (e0 - 1 + 1)" by simp
    then have "a < 2 powi (findExp n (e0 - 1) a + 1)" by (rule Suc.IH)
    then show ?thesis using False by simp
  qed
qed

lemma roundEven_bound: "\<bar>z\<bar> \<le> real_of_int k \<Longrightarrow> \<bar>roundEven z\<bar> \<le> k"
proof -
  assume z: "\<bar>z\<bar> \<le> real_of_int k"
  have lo: "- k \<le> \<lfloor>z\<rfloor>" using z by (simp add: le_floor_iff abs_le_iff)
  have hi: "\<lfloor>z\<rfloor> \<le> k" using z by (simp add: floor_le_iff abs_le_iff)
  show ?thesis
  proof (cases "\<lfloor>z\<rfloor> = k")
    case True
    then have "real_of_int k \<le> z" by (metis of_int_floor_le)
    then have "z = real_of_int k" using z by (simp add: abs_le_iff)
    then show ?thesis using z by (simp add: roundEven_def)
  next
    case False
    then have "\<lfloor>z\<rfloor> + 1 \<le> k" using hi by simp
    then show ?thesis using lo by (auto simp add: roundEven_def Let_def abs_le_iff)
  qed
qed

lemma f64_round_finite:
  assumes "\<bar>x\<bar> < 2 ^ 1023"
  shows "\<exists>y. f64_round x = Finite y \<and> \<bar>y\<bar> \<le> 2 ^ 1023"
proof -
  define r where "r = f64_exponent \<bar>x\<bar>"
  define u :: real where "u = 2 powi (r - 52)"
  have first: "\<not> 2 powi 1023 \<le> \<bar>x\<bar>" using assms by simp
  have r: "r = findExp 2044 1022 \<bar>x\<bar>"
    using first by (simp add: r_def f64_exponent_def numeral_eq_Suc)
  have r_le: "r \<le> 1022" unfolding r by (rule findExp_le)
  have "\<bar>x\<bar> < 2 powi (1022 + 1)" using assms by simp
  then have up: "\<bar>x\<bar> < 2 powi (r + 1)" unfolding r by (rule findExp_upper)
  have u: "0 < u" by (simp add: u_def)
  have p: "2 powi (r + 1) = (2 ^ 53 :: real) * u"
    using power_int_add[of "2::real" 53 "r - 52"] by (simp add: u_def add.commute)
  then have "\<bar>x\<bar> / u < 2 ^ 53" using up u by (simp add: pos_divide_less_eq)
  then have "\<bar>x / u\<bar> \<le> real_of_int (2 ^ 53)" using u by simp
  then have m: "\<bar>roundEven (x / u)\<bar> \<le> 2 ^ 53" by (rule roundEven_bound)
  define y where "y = real_of_int (roundEven (x / u)) * u"
  have "\<bar>y\<bar> = real_of_int \<bar>roundEven (x / u)\<bar> * u" using u by (simp add: y_def abs_mult)
  also have "\<dots> \<le> 2 ^ 53 * u"
    using m u by (intro mult_right_mono) (simp_all add: of_int_le_iff[of _ "2 ^ 53", simplified])
  also have "\<dots> = 2 powi (r + 1)" by (simp only: p)
  also have "\<dots> \<le> 2 powi 1023" using r_le by (intro power_int_increasing) auto
  finally have y: "\<bar>y\<bar> \<le> 2 ^ 1023" by simp
  have "(2::real) ^ 1023 < 2 ^ 1024" by (rule power_strict_increasing) auto
  then have "\<not> 2 ^ 1024 \<le> y" "\<not> y \<le> - (2 ^ 1024)" using y by (auto simp add: abs_le_iff)
  then have "f64_round x = Finite y"
    by (simp add: f64_round_def Let_def y_def u_def r_def)
  then show ?thesis using y by blast
qed

subsection \<open>The order planner\<close>

lemma PlaceOrder_plan:
  assumes "0 < budget" and "0 < takeProfitPercent" and "0 < BidPrice q" and "0 < AskPrice q"
    and "optionSymbol \<noteq> []"
    and c1: "f64_mul (f64_mul (Finite (AskPrice q)) f64_0_99) (Finite 100) = Finite limitCents"
    and b1: "limitCents < 2 ^ 63"
    and lp: "limitPrice = f64_quo (f64_of_int \<lfloor>limitCents\<rfloor>) (Finite 100)"
    and c2: "f64_mul (f64_mul limitPrice
                 (f64_add (Finite 1) (f64_quo (Finite takeProfitPercent) (Finite 100))))
               (Finite 100) = Finite takeProfitCents"
    and b2: "takeProfitCents < 2 ^ 63"
    and tp: "takeProfitPrice = f64_quo (f64_of_int \<lfloor>takeProfitCents\<rfloor>) (Finite 100)"
    and c3: "f64_quo (Finite budget) (f64_mul (Finite (AskPrice q)) (Finite 100)) = Finite contracts"
    and b3: "contracts < 2 ^ 63"
    and qt: "quantity = \<lfloor>contracts\<rfloor>"
    and rq: "req = \<lparr>ReqSymbol = optionSymbol, Qty = f64_of_int quantity, LimitPrice = limitPrice,
                    TakeProfit = takeProfitPrice\<rparr>"
  shows "PlaceOptionLimitOrderWithTakeProfit env budget optionSymbol (Some q) takeProfitPercent tr =
     (if quantity = 0 then (Inl ErrQuantityNotPositive, tr)
      else (case placeOrder env req of
              Inl e \<Rightarrow> (Inl (Wrapped ''failed to place bracket order'' e), tr @ [Call_PlaceOrder req])
            | Inr order \<Rightarrow> (Inr order, tr @ [Call_PlaceOrder req])))"
proof -
  let ?ask = "Finite (AskPrice q)"
  have ask: "f64_not_negative ?ask" using assms(4) by simp
  have "f64_not_negative (f64_mul (f64_mul ?ask f64_0_99) (Finite 100))"
    by (intro f64_mul_not_negative ask f64_0_99_not_negative) simp
  then have n1: "0 \<le> limitCents" unfolding c1 by simp
  have g1: "go_int (f64_mul (f64_mul ?ask f64_0_99) (Finite 100)) = \<lfloor>limitCents\<rfloor>"
    using go_int_floor[OF n1 b1] by (simp only: c1)
  have l: "f64_not_negative limitPrice"
    unfolding lp using n1 by (intro f64_quo_not_negative f64_of_int_not_negative) simp_all
  have "f64_not_negative (f64_mul (f64_mul limitPrice
          (f64_add (Finite 1) (f64_quo (Finite takeProfitPercent) (Finite 100)))) (Finite 100))"
    using assms(2)
    by (intro f64_mul_not_negative f64_add_not_negative f64_quo_not_negative l) simp_all
  then have n2: "0 \<le> takeProfitCents" unfolding c2 by simp
  have g2: "go_int (f64_mul (f64_mul limitPrice
          (f64_add (Finite 1) (f64_quo (Finite takeProfitPercent) (Finite 100)))) (Finite 100)) =
        \<lfloor>takeProfitCents\<rfloor>"
    using go_int_floor[OF n2 b2] by (simp only: c2)
  have "f64_not_negative (f64_quo (Finite budget) (f64_mul ?ask (Finite 100)))"
    using assms(1) by (intro f64_quo_not_negative f64_mul_not_negative ask) simp_all
  then have n3: "0 \<le> contracts" unfolding c3 by simp
  have g3: "go_int (f64_quo (Finite budget) (f64_mul ?ask (Finite 100))) = quantity"
    using go_int_floor[OF n3 b3] by (simp only: c3 qt)
  have q0: "0 \<le> quantity" using n3 by (simp add: qt)
  have n: "(budget \<le> 0) = False" "(takeProfitPercent \<le> 0) = False"
    "(BidPrice q \<le> 0 \<or> AskPrice q \<le> 0) = False" "(optionSymbol = []) = False"
    using assms(1-5) by auto
  have "PlaceOptionLimitOrderWithTakeProfit env budget optionSymbol (Some q) takeProfitPercent tr =
     (if quantity \<le> 0 then (Inl ErrQuantityNotPositive, tr)
      else (case placeOrder env req of
              Inl e \<Rightarrow> (Inl (Wrapped ''failed to place bracket order'' e), tr @ [Call_PlaceOrder req])
            | Inr order \<Rightarrow> (Inr order, tr @ [Call_PlaceOrder req])))"
    unfolding PlaceOptionLimitOrderWithTakeProfit_def Let_def
    apply (simp only: n if_False option.case)
    apply (simp only: g1 lp[symmetric])
    apply (simp only: g2 tp[symmetric] g3 rq[symmetric])
    done
  then show ?thesis using q0 by (cases "quantity = 0") simp_all
qed

lemma PlaceOrder_trace:
  "set (snd (PlaceOptionLimitOrderWithTakeProfit env b osym q tp tr)) \<subseteq> set tr \<union> range Call_PlaceOrder"
  by (auto simp add: PlaceOptionLimitOrderWithTakeProfit_def Let_def split: sum.splits option.splits if_splits)

lemma PlaceOrder_insufficient_trace:
  "fst (PlaceOptionLimitOrderWithTakeProfit env b osym q tp tr) = Inl ErrQuantityNotPositive \<Longrightarrow>
   snd (PlaceOptionLimitOrderWithTakeProfit env b osym q tp tr) = tr"
  by (auto simp add: PlaceOptionLimitOrderWithTakeProfit_def Let_def
      split: sum.splits option.splits if_splits)

text \<open>
  Whatever the inputs, the three numbers of a request are finite, so that
  \<^verbatim>\<open>decimal.NewFromFloat\<close>, which panics on a NaN or an infinity, does not. A
  quotient of budget and cost that does not fit in 64 bits converts to \<open>- (2 ^ 63)\<close>,
  and the planner fails with the quantity error.
\<close>

lemma go_int_range: "- (2 ^ 63) \<le> go_int x \<and> go_int x < 2 ^ 63"
  by (cases x) (simp_all add: go_int_def Let_def)

lemma f64_of_int_finite:
  assumes "- (2 ^ 63) \<le> n" and "n < 2 ^ 63"
  shows "\<exists>y. f64_of_int n = Finite y \<and> \<bar>y\<bar> \<le> 2 ^ 1023"
proof -
  have "\<bar>real_of_int n\<bar> \<le> 2 ^ 63"
    using assms by (simp add: abs_le_iff of_int_le_iff[of _ "2 ^ 63", simplified]
        of_int_le_iff[of "- (2 ^ 63)", simplified])
  moreover have "(2::real) ^ 63 < 2 ^ 1023" by (rule power_strict_increasing) auto
  ultimately have "\<bar>real_of_int n\<bar> < 2 ^ 1023" by simp
  then show ?thesis unfolding f64_of_int_def by (rule f64_round_finite)
qed

lemma f64_cents_finite: "\<exists>y. f64_quo (f64_of_int (go_int x)) (Finite 100) = Finite y"
proof -
  obtain c where c: "f64_of_int (go_int x) = Finite c" "\<bar>c\<bar> \<le> 2 ^ 1023"
    using f64_of_int_finite go_int_range by blast
  have "\<bar>c / 100\<bar> \<le> 2 ^ 1023 / 100" using c(2) by (simp add: divide_right_mono)
  moreover have "(2::real) ^ 1023 / 100 < 2 ^ 1023" by simp
  ultimately have "\<bar>c / 100\<bar> < 2 ^ 1023" by simp
  then obtain y where "f64_round (c / 100) = Finite y" using f64_round_finite by blast
  then show ?thesis by (simp add: c(1))
qed

lemma PlaceOrder_request_finite:
  assumes "Call_PlaceOrder req \<in> set (snd (PlaceOptionLimitOrderWithTakeProfit env b osym q tp tr))"
    and "Call_PlaceOrder req \<notin> set tr"
  shows "\<exists>n l t. Qty req = Finite n \<and> LimitPrice req = Finite l \<and> TakeProfit req = Finite t"
proof -
  obtain x1 x2 x3 where
    req: "req = \<lparr>ReqSymbol = osym, Qty = f64_of_int (go_int x3),
                  LimitPrice = f64_quo (f64_of_int (go_int x1)) (Finite 100),
                  TakeProfit = f64_quo (f64_of_int (go_int x2)) (Finite 100)\<rparr>"
    using assms
    by (auto simp add: PlaceOptionLimitOrderWithTakeProfit_def Let_def
        split: sum.splits option.splits if_splits)
  obtain n where "f64_of_int (go_int x3) = Finite n"
    using f64_of_int_finite go_int_range by blast
  moreover obtain l where "f64_quo (f64_of_int (go_int x1)) (Finite 100) = Finite l"
    using f64_cents_finite by blast
  moreover obtain t where "f64_quo (f64_of_int (go_int x2)) (Finite 100) = Finite t"
    using f64_cents_finite by blast
  ultimately show ?thesis by (simp add: req)
qed

lemma PlaceOrder_quantity_out_of_range:
  assumes "0 < budget" and "0 < takeProfitPercent" and "0 < BidPrice q" and "0 < AskPrice q"
    and "optionSymbol \<noteq> []"
    and c3: "f64_quo (Finite budget) (f64_mul (Finite (AskPrice q)) (Finite 100)) = Finite contracts"
    and b3: "2 ^ 63 \<le> contracts"
  shows "PlaceOptionLimitOrderWithTakeProfit env budget optionSymbol (Some q) takeProfitPercent tr =
     (Inl ErrQuantityNotPositive, tr)"
proof -
  have "(2::int) ^ 63 \<le> \<lfloor>contracts\<rfloor>" using b3 by (simp add: le_floor_iff)
  moreover have "0 \<le> contracts" using b3 by (rule order_trans[rotated]) simp
  ultimately have "go_int (Finite contracts) = - (2 ^ 63)" by (simp add: go_int_def)
  then have "go_int (f64_quo (Finite budget) (f64_mul (Finite (AskPrice q)) (Finite 100))) \<le> 0"
    by (simp only: c3) simp
  then show ?thesis
    using assms(1-5) by (simp add: PlaceOptionLimitOrderWithTakeProfit_def Let_def del: f64_mul.simps f64_quo.simps)
qed

text \<open>
  The planner on the float64 nearest to 12.34 and on 17, step by step: each \<open>have\<close>
  is one rounded operation of the source.
\<close>

lemma f64_0_99_value: "f64_0_99 = Finite (4458563631096791 / 2 ^ 52)"
  unfolding f64_0_99_def
  using f64_round_normal[where x = "0.99" and e = "- 1" and m = 8917127262193582]
  by (simp add: roundEven_def)

lemma ask_12_34_nearest: "f64_round 12.34 = Finite ask_12_34"
  unfolding ask_12_34_def
  using f64_round_normal[where x = "12.34" and e = 3 and m = 6946802425218990]
  by (simp add: roundEven_def)

lemma ask_12_34_plan:
  shows "f64_mul (f64_mul (Finite ask_12_34) f64_0_99) (Finite 100) = Finite (335807343797207 / 2 ^ 38)"
    and "f64_quo (f64_of_int \<lfloor>335807343797207 / 2 ^ 38 :: real\<rfloor>) (Finite 100) = f64_round 12.21"
    and "f64_mul (f64_mul (f64_round 12.21) (f64_add (Finite 1) (f64_quo (Finite 50) (Finite 100)))) (Finite 100) =
       Finite (8055022185086977 / 2 ^ 42)"
    and "f64_quo (f64_of_int \<lfloor>8055022185086977 / 2 ^ 42 :: real\<rfloor>) (Finite 100) = f64_round 18.31"
    and "f64_quo (Finite 500) (f64_mul (Finite ask_12_34) (Finite 100)) = Finite (7299189023290917 / 2 ^ 54)"
    and "f64_quo (Finite 2000) (f64_mul (Finite ask_12_34) (Finite 100)) = Finite (7299189023290917 / 2 ^ 52)"
proof -
  have l0: "f64_mul (Finite ask_12_34) f64_0_99 = Finite (429833400060425 / 2 ^ 45)"
    unfolding ask_12_34_def f64_0_99_value
    using f64_round_normal[where x = "(3473401212609495 / 2 ^ 48) * (4458563631096791 / 2 ^ 52)" and e = "3" and m = 6877334400966800]
    by (simp add: roundEven_def)
  have x1: "f64_mul (Finite (429833400060425 / 2 ^ 45)) (Finite 100) = Finite (335807343797207 / 2 ^ 38)"
    using f64_round_normal[where x = "429833400060425 / 2 ^ 45 * 100" and e = "10" and m = 5372917500755312]
    by (simp add: roundEven_def)
  have i1: "f64_of_int 1221 = Finite 1221"
    unfolding f64_of_int_def
    using f64_round_normal[where x = "1221" and e = "10" and m = 5370014790057984]
    by (simp add: roundEven_def)
  have lim: "f64_quo (Finite 1221) (Finite 100) = Finite (1718404732818555 / 2 ^ 47)"
    using f64_round_normal[where x = "1221 / 100" and e = "3" and m = 6873618931274220]
    by (simp add: roundEven_def)
  have v1: "f64_round 12.21 = Finite (1718404732818555 / 2 ^ 47)"
    using f64_round_normal[where x = "12.21" and e = "3" and m = 6873618931274220]
    by (simp add: roundEven_def)
  have pct: "f64_quo (Finite 50) (Finite 100) = Finite (1 / 2)"
    using f64_round_normal[where x = "50 / 100" and e = "- 1" and m = 4503599627370496]
    by (simp add: roundEven_def)
  have fac: "f64_add (Finite 1) (Finite (1 / 2)) = Finite (3 / 2)"
    using f64_round_normal[where x = "1 + 1 / 2" and e = "0" and m = 6755399441055744]
    by (simp add: roundEven_def)
  have tp0: "f64_mul (Finite (1718404732818555 / 2 ^ 47)) (Finite (3 / 2)) = Finite (5155214198455665 / 2 ^ 48)"
    using f64_round_normal[where x = "(1718404732818555 / 2 ^ 47) * (3 / 2)" and e = "4" and m = 5155214198455665]
    by (simp add: roundEven_def)
  have x2: "f64_mul (Finite (5155214198455665 / 2 ^ 48)) (Finite 100) = Finite (8055022185086977 / 2 ^ 42)"
    using f64_round_normal[where x = "5155214198455665 / 2 ^ 48 * 100" and e = "10" and m = 8055022185086977]
    by (simp add: roundEven_def)
  have i2: "f64_of_int 1831 = Finite 1831"
    unfolding f64_of_int_def
    using f64_round_normal[where x = "1831" and e = "10" and m = 8052823161831424]
    by (simp add: roundEven_def)
  have tp: "f64_quo (Finite 1831) (Finite 100) = Finite (5153806823572111 / 2 ^ 48)"
    using f64_round_normal[where x = "1831 / 100" and e = "4" and m = 5153806823572111]
    by (simp add: roundEven_def)
  have v2: "f64_round 18.31 = Finite (5153806823572111 / 2 ^ 48)"
    using f64_round_normal[where x = "18.31" and e = "4" and m = 5153806823572111]
    by (simp add: roundEven_def)
  have cost: "f64_mul (Finite ask_12_34) (Finite 100) = Finite 1234"
    unfolding ask_12_34_def
    using f64_round_normal[where x = "3473401212609495 / 2 ^ 48 * 100" and e = "10" and m = 5427189394702336]
    by (simp add: roundEven_def)
  have q500: "f64_quo (Finite 500) (Finite 1234) = Finite (7299189023290917 / 2 ^ 54)"
    using f64_round_normal[where x = "500 / 1234" and e = "- 2" and m = 7299189023290917]
    by (simp add: roundEven_def)
  have q2000: "f64_quo (Finite 2000) (Finite 1234) = Finite (7299189023290917 / 2 ^ 52)"
    using f64_round_normal[where x = "2000 / 1234" and e = "0" and m = 7299189023290917]
    by (simp add: roundEven_def)
  have f1: "\<lfloor>335807343797207 / 2 ^ 38 :: real\<rfloor> = 1221" by simp
  have f2: "\<lfloor>8055022185086977 / 2 ^ 42 :: real\<rfloor> = 1831" by simp
  show "f64_mul (f64_mul (Finite ask_12_34) f64_0_99) (Finite 100) = Finite (335807343797207 / 2 ^ 38)"
    by (simp only: l0 x1)
  show "f64_quo (f64_of_int \<lfloor>335807343797207 / 2 ^ 38 :: real\<rfloor>) (Finite 100) = f64_round 12.21"
    by (simp only: f1 i1 lim v1)
  show "f64_mul (f64_mul (f64_round 12.21) (f64_add (Finite 1) (f64_quo (Finite 50) (Finite 100)))) (Finite 100) =
       Finite (8055022185086977 / 2 ^ 42)"
    by (simp only: v1 pct fac tp0 x2)
  show "f64_quo (f64_of_int \<lfloor>8055022185086977 / 2 ^ 42 :: real\<rfloor>) (Finite 100) = f64_round 18.31"
    by (simp only: f2 i2 tp v2)
  show "f64_quo (Finite 500) (f64_mul (Finite ask_12_34) (Finite 100)) = Finite (7299189023290917 / 2 ^ 54)"
    by (simp only: cost q500)
  show "f64_quo (Finite 2000) (f64_mul (Finite ask_12_34) (Finite 100)) = Finite (7299189023290917 / 2 ^ 52)"
    by (simp only: cost q2000)
qed

lemma ask_17_plan:
  shows "f64_mul (f64_mul (Finite 17) f64_0_99) (Finite 100) = Finite (7401912278188031 / 2 ^ 42)"
    and "f64_quo (f64_of_int \<lfloor>7401912278188031 / 2 ^ 42 :: real\<rfloor>) (Finite 100) = f64_round 16.82"
    and "f64_mul (f64_mul (f64_round 16.82) (f64_add (Finite 1) (f64_quo (Finite 50) (Finite 100)))) (Finite 100) =
       Finite 2523"
    and "f64_quo (f64_of_int \<lfloor>2523 :: real\<rfloor>) (Finite 100) = f64_round 25.23"
    and "f64_quo (Finite 2000) (f64_mul (Finite 17) (Finite 100)) = Finite (5298352502788819 / 2 ^ 52)"
proof -
  have l0: "f64_mul (Finite 17) f64_0_99 = Finite (1184305964510085 / 2 ^ 46)"
    unfolding f64_0_99_value
    using f64_round_normal[where x = "17 * (4458563631096791 / 2 ^ 52)" and e = "4" and m = 4737223858040340]
    by (simp add: roundEven_def)
  have x1: "f64_mul (Finite (1184305964510085 / 2 ^ 46)) (Finite 100) = Finite (7401912278188031 / 2 ^ 42)"
    using f64_round_normal[where x = "1184305964510085 / 2 ^ 46 * 100" and e = "10" and m = 7401912278188031]
    by (simp add: roundEven_def)
  have i1: "f64_of_int 1682 = Finite 1682"
    unfolding f64_of_int_def
    using f64_round_normal[where x = "1682" and e = "10" and m = 7397514231676928]
    by (simp add: roundEven_def)
  have lim: "f64_quo (Finite 1682) (Finite 100) = Finite (2367204554136617 / 2 ^ 47)"
    using f64_round_normal[where x = "1682 / 100" and e = "4" and m = 4734409108273234]
    by (simp add: roundEven_def)
  have v1: "f64_round 16.82 = Finite (2367204554136617 / 2 ^ 47)"
    using f64_round_normal[where x = "16.82" and e = "4" and m = 4734409108273234]
    by (simp add: roundEven_def)
  have pct: "f64_quo (Finite 50) (Finite 100) = Finite (1 / 2)"
    using f64_round_normal[where x = "50 / 100" and e = "- 1" and m = 4503599627370496]
    by (simp add: roundEven_def)
  have fac: "f64_add (Finite 1) (Finite (1 / 2)) = Finite (3 / 2)"
    using f64_round_normal[where x = "1 + 1 / 2" and e = "0" and m = 6755399441055744]
    by (simp add: roundEven_def)
  have tp0: "f64_mul (Finite (2367204554136617 / 2 ^ 47)) (Finite (3 / 2)) = Finite (7101613662409851 / 2 ^ 48)"
    using f64_round_normal[where x = "(2367204554136617 / 2 ^ 47) * (3 / 2)" and e = "4" and m = 7101613662409851]
    by (simp add: roundEven_def)
  have x2: "f64_mul (Finite (7101613662409851 / 2 ^ 48)) (Finite 100) = Finite 2523"
    using f64_round_normal[where x = "7101613662409851 / 2 ^ 48 * 100" and e = "11" and m = 5548135673757696]
    by (simp add: roundEven_def)
  have i2: "f64_of_int 2523 = Finite 2523"
    unfolding f64_of_int_def
    using f64_round_normal[where x = "2523" and e = "11" and m = 5548135673757696]
    by (simp add: roundEven_def)
  have tp: "f64_quo (Finite 2523) (Finite 100) = Finite (7101613662409851 / 2 ^ 48)"
    using f64_round_normal[where x = "2523 / 100" and e = "4" and m = 7101613662409851]
    by (simp add: roundEven_def)
  have v2: "f64_round 25.23 = Finite (7101613662409851 / 2 ^ 48)"
    using f64_round_normal[where x = "25.23" and e = "4" and m = 7101613662409851]
    by (simp add: roundEven_def)
  have cost: "f64_mul (Finite 17) (Finite 100) = Finite 1700"
    using f64_round_normal[where x = "17 * 100" and e = "10" and m = 7476679068876800]
    by (simp add: roundEven_def)
  have q2000: "f64_quo (Finite 2000) (Finite 1700) = Finite (5298352502788819 / 2 ^ 52)"
    using f64_round_normal[where x = "2000 / 1700" and e = "0" and m = 5298352502788819]
    by (simp add: roundEven_def)
  have f1: "\<lfloor>7401912278188031 / 2 ^ 42 :: real\<rfloor> = 1682" by simp
  have f2: "\<lfloor>2523 :: real\<rfloor> = 2523" by simp
  show "f64_mul (f64_mul (Finite 17) f64_0_99) (Finite 100) = Finite (7401912278188031 / 2 ^ 42)"
    by (simp only: l0 x1)
  show "f64_quo (f64_of_int \<lfloor>7401912278188031 / 2 ^ 42 :: real\<rfloor>) (Finite 100) = f64_round 16.82"
    by (simp only: f1 i1 lim v1)
  show "f64_mul (f64_mul (f64_round 16.82) (f64_add (Finite 1) (f64_quo (Finite 50) (Finite 100)))) (Finite 100) =
       Finite 2523"
    by (simp only: v1 pct fac tp0 x2)
  show "f64_quo (f64_of_int \<lfloor>2523 :: real\<rfloor>) (Finite 100) = f64_round 25.23"
    by (simp only: f2 i2 tp v2)
  show "f64_quo (Finite 2000) (f64_mul (Finite 17) (Finite 100)) = Finite (5298352502788819 / 2 ^ 52)"
    by (simp only: cost q2000)
qed

lemma ask_12_34_pos: "0 < ask_12_34"
  by (simp add: ask_12_34_def)

lemma f64_of_int_1: "f64_of_int 1 = Finite 1"
  unfolding f64_of_int_def
  using f64_round_normal[where x = 1 and e = 0 and m = "2 ^ 52"]
  by (simp add: roundEven_def)

lemma exampleQuote_budget_500:
  assumes "optionSymbol \<noteq> []"
  shows "PlaceOptionLimitOrderWithTakeProfit env 500 optionSymbol (Some exampleQuote) 50 tr =
     (Inl ErrQuantityNotPositive, tr)"
  using PlaceOrder_plan[where env = env and budget = 500
      and optionSymbol = optionSymbol and q = exampleQuote and takeProfitPercent = 50
      and tr = tr and limitCents = "335807343797207 / 2 ^ 38"
      and limitPrice = "f64_round 12.21" and takeProfitCents = "8055022185086977 / 2 ^ 42"
      and takeProfitPrice = "f64_round 18.31" and contracts = "7299189023290917 / 2 ^ 54"
      and quantity = 0, OF _ _ _ _ _ _ _ _ _ _ _ _ _ _ refl]
    ask_12_34_plan ask_12_34_pos assms
  by (simp add: exampleQuote_def)

text \<open>
  C2, as stated, fails: the products are rounded to \<^verbatim>\<open>float64\<close> before they are
  truncated. With ask 17 and 50 percent the exact formulas give the limit price 16.83
  and the take-profit price 25.24; the code computes \<open>17 * 0.99 * 100\<close> as a
  \<^verbatim>\<open>float64\<close> below 1683, truncates it to 1682 and sends the limit price 16.82 and
  the take-profit price 25.23 (the \<^verbatim>\<open>float64\<close> values nearest to them).
\<close>

theorem PlaceOptionLimitOrderWithTakeProfit_ask_17_one_cent_lower:
  "PlaceOptionLimitOrderWithTakeProfit exampleEnv 2000 ''QQQ240621C00420000''
     (Some \<lparr>BidPrice = 16, AskPrice = 17\<rparr>) 50 [] =
     (Inr \<lparr>ID = ''order-1''\<rparr>,
      [Call_PlaceOrder \<lparr>ReqSymbol = ''QQQ240621C00420000'', Qty = Finite 1,
                        LimitPrice = f64_round 16.82, TakeProfit = f64_round 25.23\<rparr>]) \<and>
   real_of_int \<lfloor>(17::real) * 0.99 * 100\<rfloor> / 100 = 16.83 \<and>
   real_of_int \<lfloor>(16.83::real) * (1 + 50 / 100) * 100\<rfloor> / 100 = 25.24 \<and>
   f64_round 16.82 \<noteq> f64_round 16.83 \<and> f64_round 25.23 \<noteq> f64_round 25.24"
proof -
  let ?q = "\<lparr>BidPrice = 16, AskPrice = 17\<rparr>"
  have fl: "\<lfloor>5298352502788819 / 2 ^ 52 :: real\<rfloor> = 1" by simp
  have "PlaceOptionLimitOrderWithTakeProfit exampleEnv 2000 ''QQQ240621C00420000'' (Some ?q) 50 [] =
     (Inr \<lparr>ID = ''order-1''\<rparr>,
      [Call_PlaceOrder \<lparr>ReqSymbol = ''QQQ240621C00420000'', Qty = Finite 1,
                        LimitPrice = f64_round 16.82, TakeProfit = f64_round 25.23\<rparr>])"
    using PlaceOrder_plan[where env = exampleEnv and budget = 2000
        and optionSymbol = "''QQQ240621C00420000''" and q = ?q and takeProfitPercent = 50
        and tr = "[]" and limitCents = "7401912278188031 / 2 ^ 42"
        and limitPrice = "f64_round 16.82" and takeProfitCents = 2523
        and takeProfitPrice = "f64_round 25.23" and contracts = "5298352502788819 / 2 ^ 52"
        and quantity = 1, OF _ _ _ _ _ _ _ _ _ _ _ _ _ _ refl]
      ask_17_plan f64_of_int_1 fl
    by (simp add: exampleEnv_def)
  moreover have "f64_round 16.83 = Finite (1184305964510085 / 2 ^ 46)"
    using f64_round_normal[where x = "16.83" and e = 4 and m = 4737223858040340]
    by (simp add: roundEven_def)
  moreover have "f64_round 16.82 = Finite (2367204554136617 / 2 ^ 47)"
    using f64_round_normal[where x = "16.82" and e = 4 and m = 4734409108273234]
    by (simp add: roundEven_def)
  moreover have "f64_round 25.23 = Finite (7101613662409851 / 2 ^ 48)"
    using f64_round_normal[where x = "25.23" and e = 4 and m = 7101613662409851]
    by (simp add: roundEven_def)
  moreover have "f64_round 25.24 = Finite (7104428412176957 / 2 ^ 48)"
    using f64_round_normal[where x = "25.24" and e = 4 and m = 7104428412176957]
    by (simp add: roundEven_def)
  ultimately show ?thesis by simp
qed

text \<open>
  C2 (amended). For a budget, a take-profit percentage, a bid and an ask that are all
  positive, \<^verbatim>\<open>PlaceOptionLimitOrderWithTakeProfit\<close> computes in \<^verbatim>\<open>float64\<close>
  arithmetic, every product, quotient and sum rounded to the nearest \<^verbatim>\<open>float64\<close>
  and 0.99 being the \<^verbatim>\<open>float64\<close> nearest to it:
  \<open>limitCents = (ask * 0.99) * 100\<close> and \<open>limitPrice = \<lfloor>limitCents\<rfloor> / 100\<close>,
  \<open>takeProfitCents = (limitPrice * (1 + takeProfitPercent / 100)) * 100\<close> and
  \<open>takeProfitPrice = \<lfloor>takeProfitCents\<rfloor> / 100\<close>,
  \<open>contracts = budget / (ask * 100)\<close> and \<open>quantity = \<lfloor>contracts\<rfloor>\<close>,
  as long as the three truncated values are finite and below \<open>2 ^ 63\<close>. It fails with
  the quantity error, sending nothing, exactly when the quantity is 0, and otherwise
  submits exactly that request. With the \<^verbatim>\<open>float64\<close> nearest to 12.34 as the ask and
  50 percent: budget 500 gives quantity 0; budget 2000 gives quantity 1, limit price
  12.21 and take-profit price 18.31 (the \<^verbatim>\<open>float64\<close> values nearest to them).
\<close>

theorem PlaceOptionLimitOrderWithTakeProfit_float64_plan:
  assumes "0 < budget" and "0 < takeProfitPercent" and "0 < BidPrice q" and "0 < AskPrice q"
    and "optionSymbol \<noteq> []"
    and "f64_mul (f64_mul (Finite (AskPrice q)) f64_0_99) (Finite 100) = Finite limitCents"
    and "limitCents < 2 ^ 63"
    and "limitPrice = f64_quo (f64_of_int \<lfloor>limitCents\<rfloor>) (Finite 100)"
    and "f64_mul (f64_mul limitPrice
             (f64_add (Finite 1) (f64_quo (Finite takeProfitPercent) (Finite 100))))
           (Finite 100) = Finite takeProfitCents"
    and "takeProfitCents < 2 ^ 63"
    and "takeProfitPrice = f64_quo (f64_of_int \<lfloor>takeProfitCents\<rfloor>) (Finite 100)"
    and "f64_quo (Finite budget) (f64_mul (Finite (AskPrice q)) (Finite 100)) = Finite contracts"
    and "contracts < 2 ^ 63"
    and "quantity = \<lfloor>contracts\<rfloor>"
    and "req = \<lparr>ReqSymbol = optionSymbol, Qty = f64_of_int quantity, LimitPrice = limitPrice,
                 TakeProfit = takeProfitPrice\<rparr>"
  shows "PlaceOptionLimitOrderWithTakeProfit env budget optionSymbol (Some q) takeProfitPercent tr =
           (if quantity = 0 then (Inl ErrQuantityNotPositive, tr)
            else (case placeOrder env req of
                    Inl e \<Rightarrow> (Inl (Wrapped ''failed to place bracket order'' e),
                              tr @ [Call_PlaceOrder req])
                  | Inr order \<Rightarrow> (Inr order, tr @ [Call_PlaceOrder req]))) \<and>
         (fst (PlaceOptionLimitOrderWithTakeProfit env budget optionSymbol (Some q)
                 takeProfitPercent tr) = Inl ErrQuantityNotPositive \<longleftrightarrow> quantity = 0)"
  unfolding PlaceOrder_plan[OF assms]
  by (simp split: sum.splits)

theorem PlaceOptionLimitOrderWithTakeProfit_float64_plan_witness:
  "f64_round 12.34 = Finite (AskPrice exampleQuote) \<and>
   f64_mul (f64_mul (Finite (AskPrice exampleQuote)) f64_0_99) (Finite 100) =
     Finite (335807343797207 / 2 ^ 38) \<and>
   \<lfloor>335807343797207 / 2 ^ 38 :: real\<rfloor> = 1221 \<and>
   f64_quo (f64_of_int 1221) (Finite 100) = f64_round 12.21 \<and>
   f64_mul (f64_mul (f64_round 12.21) (f64_add (Finite 1) (f64_quo (Finite 50) (Finite 100))))
     (Finite 100) = Finite (8055022185086977 / 2 ^ 42) \<and>
   \<lfloor>8055022185086977 / 2 ^ 42 :: real\<rfloor> = 1831 \<and>
   f64_quo (f64_of_int 1831) (Finite 100) = f64_round 18.31 \<and>
   f64_quo (Finite 500) (f64_mul (Finite (AskPrice exampleQuote)) (Finite 100)) =
     Finite (7299189023290917 / 2 ^ 54) \<and>
   \<lfloor>7299189023290917 / 2 ^ 54 :: real\<rfloor> = 0 \<and>
   f64_quo (Finite 2000) (f64_mul (Finite (AskPrice exampleQuote)) (Finite 100)) =
     Finite (7299189023290917 / 2 ^ 52) \<and>
   \<lfloor>7299189023290917 / 2 ^ 52 :: real\<rfloor> = 1 \<and>
   PlaceOptionLimitOrderWithTakeProfit exampleEnv 500 ''QQQ240621C00420000'' (Some exampleQuote) 50 []
     = (Inl ErrQuantityNotPositive, []) \<and>
   PlaceOptionLimitOrderWithTakeProfit exampleEnv 2000 ''QQQ240621C00420000'' (Some exampleQuote) 50 []
     = (Inr \<lparr>ID = ''order-1''\<rparr>,
        [Call_PlaceOrder \<lparr>ReqSymbol = ''QQQ240621C00420000'', Qty = Finite 1,
                          LimitPrice = f64_round 12.21, TakeProfit = f64_round 18.31\<rparr>])"
  using PlaceOptionLimitOrderWithTakeProfit_float64_plan[where env = exampleEnv and budget = 500
      and optionSymbol = "''QQQ240621C00420000''" and q = exampleQuote and takeProfitPercent = 50
      and tr = "[]" and limitCents = "335807343797207 / 2 ^ 38"
      and limitPrice = "f64_round 12.21" and takeProfitCents = "8055022185086977 / 2 ^ 42"
      and takeProfitPrice = "f64_round 18.31" and contracts = "7299189023290917 / 2 ^ 54"
      and quantity = 0, OF _ _ _ _ _ _ _ _ _ _ _ _ _ _ refl]
    PlaceOptionLimitOrderWithTakeProfit_float64_plan[where env = exampleEnv and budget = 2000
      and optionSymbol = "''QQQ240621C00420000''" and q = exampleQuote and takeProfitPercent = 50
      and tr = "[]" and limitCents = "335807343797207 / 2 ^ 38"
      and limitPrice = "f64_round 12.21" and takeProfitCents = "8055022185086977 / 2 ^ 42"
      and takeProfitPrice = "f64_round 18.31" and contracts = "7299189023290917 / 2 ^ 52"
      and quantity = 1, OF _ _ _ _ _ _ _ _ _ _ _ _ _ _ refl]
    ask_12_34_plan ask_12_34_nearest ask_12_34_pos f64_of_int_1
  by (simp add: exampleEnv_def exampleQuote_def)

subsection \<open>The contract selector\<close>

lemma collectValid_eq:
  "collectValid minDelta chain = map candidateOf (filter (qualifies minDelta) chain)"
proof (induction chain)
  case Nil
  then show ?case by simp
next
  case (Cons entry rest)
  obtain osym snap where e: "entry = (osym, snap)" by (cases entry)
  show ?case using Cons.IH
    by (auto simp add: e qualifies_def candidateOf_def entryDelta_def entryExpiry_def
        split: option.splits sum.splits)
qed

lemma Before_irrefl: "\<not> Before a a"
  by (simp add: Before_def)

lemma Before_antisym: "\<not> Before a b \<Longrightarrow> \<not> Before b a \<Longrightarrow> a = b"
  by (cases a, cases b) (auto simp add: Before_def)

lemma not_Before_trans: "\<not> Before a b \<Longrightarrow> \<not> Before b c \<Longrightarrow> \<not> Before a c"
  by (auto simp add: Before_def)

lemma minDeltaLoop_mem: "minDeltaLoop m xs \<in> set (m # xs)"
  by (induction xs arbitrary: m) auto

lemma minDeltaLoop_le: "x \<in> set (m # xs) \<Longrightarrow> c_delta (minDeltaLoop m xs) \<le> c_delta x"
proof (induction xs arbitrary: m x)
  case Nil
  then show ?case by simp
next
  case (Cons y ys)
  let ?m' = "if c_delta y < c_delta m then y else m"
  have step: "minDeltaLoop m (y # ys) = minDeltaLoop ?m' ys" by simp
  have le_m': "c_delta (minDeltaLoop ?m' ys) \<le> c_delta ?m'" using Cons.IH[of ?m' ?m'] by simp
  consider "x = m" | "x = y" | "x \<in> set ys" using Cons.prems by auto
  then show ?case
  proof cases
    case 1
    then show ?thesis using le_m' unfolding step by (auto split: if_splits)
  next
    case 2
    then show ?thesis using le_m' unfolding step by (auto split: if_splits)
  next
    case 3
    then show ?thesis using Cons.IH[of x ?m'] unfolding step by simp
  qed
qed

lemma mset_insertLeft: "mset (insertLeft x ys) = add_mset x (mset ys)"
  by (induction ys) auto

lemma set_insertLeft: "set (insertLeft x ys) = insert x (set ys)"
  by (induction ys) auto

lemma sorted_insertLeft:
  "sorted_wrt (\<lambda>a b. \<not> Before (c_expiry a) (c_expiry b)) ys \<Longrightarrow>
   sorted_wrt (\<lambda>a b. \<not> Before (c_expiry a) (c_expiry b)) (insertLeft x ys)"
proof (induction ys)
  case Nil
  then show ?case by simp
next
  case (Cons y ys)
  show ?case
  proof (cases "Before (c_expiry x) (c_expiry y)")
    case True
    then have "\<not> Before (c_expiry y) (c_expiry x)" by (auto simp: Before_def)
    then show ?thesis using True Cons by (auto simp add: set_insertLeft)
  next
    case False
    then have "\<forall>z \<in> set ys. \<not> Before (c_expiry x) (c_expiry z)"
      using Cons.prems not_Before_trans by fastforce
    then show ?thesis using False Cons.prems by simp
  qed
qed

lemma insertionSort_ok: "sortSlice_ok insertionSort xs"
proof -
  have inv: "mset (foldl (\<lambda>acc x. insertLeft x acc) acc xs) = mset acc + mset xs \<and>
        (sorted_wrt (\<lambda>a b. \<not> Before (c_expiry a) (c_expiry b)) acc \<longrightarrow>
         sorted_wrt (\<lambda>a b. \<not> Before (c_expiry a) (c_expiry b))
           (foldl (\<lambda>acc x. insertLeft x acc) acc xs))" for acc
  proof (induction xs arbitrary: acc)
    case Nil
    then show ?case by simp
  next
    case (Cons x xs)
    show ?case using Cons.IH[of "insertLeft x acc"]
      by (auto simp add: mset_insertLeft sorted_insertLeft)
  qed
  show ?thesis unfolding sortSlice_ok_def insertionSort_def
    using inv[of "[]"] by (simp add: sorted_wrt_rev)
qed

lemma insertionSort_two_equal:
  "c_expiry a = c_expiry b \<Longrightarrow> insertionSort [a, b] = [a, b]"
  by (simp add: insertionSort_def Before_irrefl)

lemma GetCallLeapsByDelta_trace:
  "tk \<noteq> [] \<Longrightarrow> 0 < md \<Longrightarrow> snd (GetCallLeapsByDelta env tk md tr) = tr @ [Call_GetOptionChain]"
  by (simp add: GetCallLeapsByDelta_def Let_def split: sum.splits list.splits)

lemma GetCallLeapsByDelta_selects:
  assumes tk: "underlyingTicker \<noteq> []" and md: "0 < minDelta"
    and ch: "optionChain env = Inr chain"
    and srt: "sortSlice_ok (sortSlice env) (collectValid minDelta chain)"
    and ex: "e0 \<in> set chain" "qualifies minDelta e0"
  obtains e where "e \<in> set chain" and "qualifies minDelta e"
    and "fst (GetCallLeapsByDelta env underlyingTicker minDelta tr) = Inr e"
    and "\<And>e'. e' \<in> set chain \<Longrightarrow> qualifies minDelta e' \<Longrightarrow>
            \<not> Before (entryExpiry e') (entryExpiry e)"
    and "\<And>e'. e' \<in> set chain \<Longrightarrow> qualifies minDelta e' \<Longrightarrow> entryExpiry e' = entryExpiry e \<Longrightarrow>
            entryDelta e \<le> entryDelta e'"
proof -
  let ?valid = "collectValid minDelta chain"
  let ?sorted = "sortSlice env ?valid"
  have valid_set: "set ?valid = candidateOf ` {e \<in> set chain. qualifies minDelta e}"
    by (simp add: collectValid_eq)
  have valid_ne: "?valid \<noteq> []" using ex valid_set by auto
  have chain_ne: "chain \<noteq> []" using ex by auto
  have ms: "mset ?sorted = mset ?valid"
    and sw: "sorted_wrt (\<lambda>a b. \<not> Before (c_expiry b) (c_expiry a)) ?sorted"
    using srt by (simp_all add: sortSlice_ok_def)
  have set_sorted: "set ?sorted = set ?valid" using ms by (metis set_mset_mset)
  then have "?sorted \<noteq> []" using valid_ne by auto
  then obtain first others where so: "?sorted = first # others" by (cases ?sorted) auto
  have earliest: "\<not> Before (c_expiry c) (c_expiry first)" if "c \<in> set ?sorted" for c
    using that sw unfolding so by (auto simp add: Before_irrefl)
  let ?rest = "filter (\<lambda>option. c_expiry option = c_expiry first) others"
  define res where "res = minDeltaLoop first (first # ?rest)"
  have res_in: "res \<in> set (first # ?rest)"
    using minDeltaLoop_mem[of first "first # ?rest"] by (auto simp: res_def)
  have res_min: "c_delta res \<le> c_delta x" if "x \<in> set (first # ?rest)" for x
    using minDeltaLoop_le[of x first "first # ?rest"] that by (auto simp: res_def)
  have res_exp: "c_expiry res = c_expiry first" using res_in by auto
  have "res \<in> set ?sorted" using res_in unfolding so by auto
  then have "res \<in> set ?valid" using set_sorted by simp
  then obtain e where e: "e \<in> set chain" "qualifies minDelta e" "res = candidateOf e"
    using valid_set by auto
  have pair: "(c_symbol res, c_snapshot res) = e" by (simp add: e(3) candidateOf_def)
  have result: "fst (GetCallLeapsByDelta env underlyingTicker minDelta tr) = Inr e"
    using tk md chain_ne valid_ne
    unfolding GetCallLeapsByDelta_def ch Let_def
    by (simp add: so res_def[symmetric] pair del: minDeltaLoop.simps)
  have exp_e: "entryExpiry e = c_expiry first" using res_exp by (simp add: e(3) candidateOf_def)
  have del_e: "entryDelta e = c_delta res" by (simp add: e(3) candidateOf_def)
  show ?thesis
  proof (rule that[OF e(1,2) result])
    fix e' assume a: "e' \<in> set chain" "qualifies minDelta e'"
    then have "candidateOf e' \<in> set ?sorted" using set_sorted valid_set by auto
    from earliest[OF this] show "\<not> Before (entryExpiry e') (entryExpiry e)"
      by (simp add: exp_e candidateOf_def)
  next
    fix e' assume a: "e' \<in> set chain" "qualifies minDelta e'" "entryExpiry e' = entryExpiry e"
    then have "candidateOf e' \<in> set ?sorted" using set_sorted valid_set by auto
    then have "candidateOf e' \<in> set (first # ?rest)"
      using a(3) unfolding so by (auto simp add: exp_e candidateOf_def)
    from res_min[OF this] show "entryDelta e \<le> entryDelta e'"
      by (simp add: del_e candidateOf_def)
  qed
qed

lemma GetCallLeapsByDelta_eval:
  assumes "underlyingTicker \<noteq> []" and "0 < minDelta" and "optionChain env = Inr chain"
    and "chain \<noteq> []" and "collectValid minDelta chain = v" and "v \<noteq> []"
    and "sortSlice env v = first # others"
    and "res = minDeltaLoop first (first # filter (\<lambda>option. c_expiry option = c_expiry first) others)"
  shows "fst (GetCallLeapsByDelta env underlyingTicker minDelta tr) = Inr (c_symbol res, c_snapshot res)"
proof -
  have c1: "collectValid minDelta chain \<noteq> []" using assms(5,6) by simp
  have c2: "sortSlice env (collectValid minDelta chain) = first # others" using assms(5,7) by simp
  show ?thesis
    using assms(1,2,4) c1
    by (simp add: GetCallLeapsByDelta_def Let_def assms(3) c2 assms(8) del: minDeltaLoop.simps)
qed

lemma exampleChain_valid:
  "collectValid 0.60 exampleChain =
     [\<lparr>c_symbol = ''QQQ250117C00400000'', c_snapshot = exampleSnapshot 0.65, c_delta = 0.65,
       c_expiry = \<lparr>Year = 2025, Month = 1, Day = 17\<rparr>\<rparr>,
      \<lparr>c_symbol = ''QQQ250117C00410000'', c_snapshot = exampleSnapshot 0.70, c_delta = 0.70,
       c_expiry = \<lparr>Year = 2025, Month = 1, Day = 17\<rparr>\<rparr>,
      \<lparr>c_symbol = ''QQQ240621C00420000'', c_snapshot = exampleSnapshot 0.62, c_delta = 0.62,
       c_expiry = \<lparr>Year = 2024, Month = 6, Day = 21\<rparr>\<rparr>]"
  by (simp add: exampleChain_def parse_examples exampleSnapshot_def)

lemma example_facts:
  "qualifies 0.60 (''QQQ250117C00400000'', exampleSnapshot 0.65)"
  "qualifies 0.60 (''QQQ250117C00410000'', exampleSnapshot 0.70)"
  "qualifies 0.60 (''QQQ240621C00420000'', exampleSnapshot 0.62)"
  "entryExpiry (''QQQ250117C00400000'', s1) = \<lparr>Year = 2025, Month = 1, Day = 17\<rparr>"
  "entryExpiry (''QQQ250117C00410000'', s2) = \<lparr>Year = 2025, Month = 1, Day = 17\<rparr>"
  "entryExpiry (''QQQ240621C00420000'', s3) = \<lparr>Year = 2024, Month = 6, Day = 21\<rparr>"
  "\<not> qualifies 0.60 (''QQQ240621C00430000'', \<lparr>LatestQuote = Some exampleQuote, Greeks = None\<rparr>)"
  "\<not> qualifies 0.60 (''XYZ'', exampleSnapshot 0.90)"
  by (simp_all add: qualifies_def entryExpiry_def parse_examples exampleSnapshot_def)

lemma tieChain_valid:
  "collectValid 0.60 tieChain =
     [\<lparr>c_symbol = ''QQQ250117C00400000'', c_snapshot = exampleSnapshot 0.65, c_delta = 0.65,
       c_expiry = \<lparr>Year = 2025, Month = 1, Day = 17\<rparr>\<rparr>,
      \<lparr>c_symbol = ''QQQ250117C00410000'', c_snapshot = exampleSnapshot 0.65, c_delta = 0.65,
       c_expiry = \<lparr>Year = 2025, Month = 1, Day = 17\<rparr>\<rparr>]"
  "collectValid 0.60 (rev tieChain) =
     [\<lparr>c_symbol = ''QQQ250117C00410000'', c_snapshot = exampleSnapshot 0.65, c_delta = 0.65,
       c_expiry = \<lparr>Year = 2025, Month = 1, Day = 17\<rparr>\<rparr>,
      \<lparr>c_symbol = ''QQQ250117C00400000'', c_snapshot = exampleSnapshot 0.65, c_delta = 0.65,
       c_expiry = \<lparr>Year = 2025, Month = 1, Day = 17\<rparr>\<rparr>]"
  by (simp_all add: tieChain_def parse_examples exampleSnapshot_def)

lemma insertionSort_exampleValid:
  "insertionSort (collectValid 0.60 exampleChain) =
     [\<lparr>c_symbol = ''QQQ240621C00420000'', c_snapshot = exampleSnapshot 0.62, c_delta = 0.62,
       c_expiry = \<lparr>Year = 2024, Month = 6, Day = 21\<rparr>\<rparr>,
      \<lparr>c_symbol = ''QQQ250117C00400000'', c_snapshot = exampleSnapshot 0.65, c_delta = 0.65,
       c_expiry = \<lparr>Year = 2025, Month = 1, Day = 17\<rparr>\<rparr>,
      \<lparr>c_symbol = ''QQQ250117C00410000'', c_snapshot = exampleSnapshot 0.70, c_delta = 0.70,
       c_expiry = \<lparr>Year = 2025, Month = 1, Day = 17\<rparr>\<rparr>]"
  unfolding exampleChain_valid by (simp add: insertionSort_def Before_def)

lemma exampleChain_selects:
  assumes "optionChain env = Inr exampleChain" and "sortSlice env = insertionSort"
  shows "fst (GetCallLeapsByDelta env ticker 0.60 tr) =
     Inr (''QQQ240621C00420000'', exampleSnapshot 0.62)"
proof -
  have ne: "exampleChain \<noteq> []" by (simp add: exampleChain_def)
  have v: "collectValid 0.60 exampleChain \<noteq> []" unfolding exampleChain_valid by simp
  have so: "sortSlice env (collectValid 0.60 exampleChain) =
       \<lparr>c_symbol = ''QQQ240621C00420000'', c_snapshot = exampleSnapshot 0.62, c_delta = 0.62,
        c_expiry = \<lparr>Year = 2024, Month = 6, Day = 21\<rparr>\<rparr> #
       [\<lparr>c_symbol = ''QQQ250117C00400000'', c_snapshot = exampleSnapshot 0.65, c_delta = 0.65,
         c_expiry = \<lparr>Year = 2025, Month = 1, Day = 17\<rparr>\<rparr>,
        \<lparr>c_symbol = ''QQQ250117C00410000'', c_snapshot = exampleSnapshot 0.70, c_delta = 0.70,
         c_expiry = \<lparr>Year = 2025, Month = 1, Day = 17\<rparr>\<rparr>]"
    using insertionSort_exampleValid by (simp add: assms(2))
  show ?thesis
    using GetCallLeapsByDelta_eval[OF ticker_nonempty _ assms(1) ne refl v so refl, of tr]
    by simp
qed

text \<open>
  C1. For a non-empty ticker, a positive minimum delta and a chain with at least one
  qualifying entry, \<^verbatim>\<open>GetCallLeapsByDelta\<close> succeeds and returns a qualifying entry
  of the chain; no qualifying entry expires before it, and among the qualifying entries
  of its expiry none has a smaller delta. Entries without greeks or with a symbol that
  does not parse do not make the call fail. This holds for every order in which the
  map is visited and for every sort the runtime performs (\<open>sortSlice_ok\<close>). On the
  example chain the call selects C.
\<close>

theorem GetCallLeapsByDelta_earliest_then_min_delta:
  assumes "underlyingTicker \<noteq> []" and "0 < minDelta"
    and "optionChain env = Inr chain"
    and "sortSlice_ok (sortSlice env) (collectValid minDelta chain)"
    and "\<exists>e \<in> set chain. qualifies minDelta e"
  shows "\<exists>e \<in> set chain.
           fst (GetCallLeapsByDelta env underlyingTicker minDelta tr) = Inr e \<and>
           qualifies minDelta e \<and>
           (\<forall>e' \<in> set chain. qualifies minDelta e' \<longrightarrow>
              \<not> Before (entryExpiry e') (entryExpiry e)) \<and>
           (\<forall>e' \<in> set chain. qualifies minDelta e' \<and> entryExpiry e' = entryExpiry e \<longrightarrow>
              entryDelta e \<le> entryDelta e')"
proof -
  from assms(5) obtain e0 where e0: "e0 \<in> set chain" "qualifies minDelta e0" by auto
  from GetCallLeapsByDelta_selects[OF assms(1-4) e0, of tr]
  obtain e where "e \<in> set chain" "qualifies minDelta e"
    "fst (GetCallLeapsByDelta env underlyingTicker minDelta tr) = Inr e"
    "\<And>e'. e' \<in> set chain \<Longrightarrow> qualifies minDelta e' \<Longrightarrow> \<not> Before (entryExpiry e') (entryExpiry e)"
    "\<And>e'. e' \<in> set chain \<Longrightarrow> qualifies minDelta e' \<Longrightarrow> entryExpiry e' = entryExpiry e \<Longrightarrow>
            entryDelta e \<le> entryDelta e'"
    by blast
  then show ?thesis by blast
qed

theorem GetCallLeapsByDelta_earliest_then_min_delta_witness:
  "ticker \<noteq> [] \<and> (0::real) < 0.60 \<and> optionChain exampleEnv = Inr exampleChain \<and>
   sortSlice_ok (sortSlice exampleEnv) (collectValid 0.60 exampleChain) \<and>
   (\<exists>e \<in> set exampleChain. qualifies 0.60 e) \<and>
   fst (GetCallLeapsByDelta exampleEnv ticker 0.60 []) =
     Inr (''QQQ240621C00420000'', exampleSnapshot 0.62)"
proof -
  have h1: "ticker \<noteq> []" by (rule ticker_nonempty)
  have h2: "(0::real) < 0.60" by simp
  have h3: "optionChain exampleEnv = Inr exampleChain" by (simp add: exampleEnv_def)
  have h4: "sortSlice_ok (sortSlice exampleEnv) (collectValid 0.60 exampleChain)"
    using insertionSort_ok by (simp add: exampleEnv_def)
  have h5: "\<exists>e \<in> set exampleChain. qualifies 0.60 e"
    using example_facts(3) by (auto simp add: exampleChain_def)
  from GetCallLeapsByDelta_earliest_then_min_delta[OF h1 h2 h3 h4 h5, of "[]"]
  obtain e where e: "e \<in> set exampleChain"
    "fst (GetCallLeapsByDelta exampleEnv ticker 0.60 []) = Inr e"
    "qualifies 0.60 e"
    "\<forall>e' \<in> set exampleChain. qualifies 0.60 e' \<longrightarrow> \<not> Before (entryExpiry e') (entryExpiry e)"
    by blast
  have c: "(''QQQ240621C00420000'', exampleSnapshot 0.62) \<in> set exampleChain"
    by (simp add: exampleChain_def)
  have "\<not> Before (entryExpiry (''QQQ240621C00420000'', exampleSnapshot 0.62)) (entryExpiry e)"
    using e(4) c example_facts(3) by blast
  then have "e = (''QQQ240621C00420000'', exampleSnapshot 0.62)"
    using e(1) e(3) example_facts(7,8)
    by (auto simp add: exampleChain_def example_facts(4-6) Before_def)
  then show ?thesis using h1 h2 h3 h4 h5 e(2) by simp
qed

text \<open>
  C5, as stated, fails: the same two-entry chain, visited in its two possible orders,
  yields two different symbols. Both entries have the same expiry and the same delta;
  the loop keeps the first it meets (it compares deltas with \<open><\<close> and never looks at
  the symbol).
\<close>

theorem GetCallLeapsByDelta_tie_follows_iteration_order:
  "set (rev tieChain) = set tieChain \<and>
   fst (GetCallLeapsByDelta (exampleEnv\<lparr>optionChain := Inr tieChain\<rparr>) ''QQQ'' 0.60 []) =
     Inr (''QQQ250117C00400000'', exampleSnapshot 0.65) \<and>
   fst (GetCallLeapsByDelta (exampleEnv\<lparr>optionChain := Inr (rev tieChain)\<rparr>) ''QQQ'' 0.60 []) =
     Inr (''QQQ250117C00410000'', exampleSnapshot 0.65)"
proof -
  have ne: "tieChain \<noteq> []" "rev tieChain \<noteq> []" by (simp_all add: tieChain_def)
  have s1: "sortSlice (exampleEnv\<lparr>optionChain := Inr tieChain\<rparr>) = insertionSort"
    and s2: "sortSlice (exampleEnv\<lparr>optionChain := Inr (rev tieChain)\<rparr>) = insertionSort"
    by (simp_all add: exampleEnv_def)
  have a: "fst (GetCallLeapsByDelta (exampleEnv\<lparr>optionChain := Inr tieChain\<rparr>) ''QQQ'' 0.60 []) =
     Inr (''QQQ250117C00400000'', exampleSnapshot 0.65)"
    using GetCallLeapsByDelta_eval[where env = "exampleEnv\<lparr>optionChain := Inr tieChain\<rparr>"
        and underlyingTicker = "''QQQ''" and minDelta = "0.60" and tr = "[]"
        and chain = tieChain, OF _ _ _ ne(1) tieChain_valid(1) _ _ refl]
    by (simp add: s1 insertionSort_two_equal)
  have b: "fst (GetCallLeapsByDelta (exampleEnv\<lparr>optionChain := Inr (rev tieChain)\<rparr>) ''QQQ'' 0.60 []) =
     Inr (''QQQ250117C00410000'', exampleSnapshot 0.65)"
    using GetCallLeapsByDelta_eval[where env = "exampleEnv\<lparr>optionChain := Inr (rev tieChain)\<rparr>"
        and underlyingTicker = "''QQQ''" and minDelta = "0.60" and tr = "[]"
        and chain = "rev tieChain", OF _ _ _ ne(2) tieChain_valid(2) _ _ refl]
    by (simp add: s2 insertionSort_two_equal)
  show ?thesis using a b by simp
qed

text \<open>
  C5 (amended). For a fixed chain (the same entries, in any order of visit, under any
  admissible sort) and a fixed minimum delta, any two calls of
  \<^verbatim>\<open>GetCallLeapsByDelta\<close> return entries of the same expiry and the same delta; they
  return the identical entry whenever no other qualifying entry of that expiry has that
  delta.
\<close>

theorem GetCallLeapsByDelta_same_expiry_and_delta:
  assumes "underlyingTicker \<noteq> []" and "0 < minDelta"
    and "optionChain env1 = Inr chain1" and "optionChain env2 = Inr chain2"
    and "set chain1 = set chain2"
    and "sortSlice_ok (sortSlice env1) (collectValid minDelta chain1)"
    and "sortSlice_ok (sortSlice env2) (collectValid minDelta chain2)"
    and "\<exists>e \<in> set chain1. qualifies minDelta e"
  shows "\<exists>e1 e2.
           fst (GetCallLeapsByDelta env1 underlyingTicker minDelta tr1) = Inr e1 \<and>
           fst (GetCallLeapsByDelta env2 underlyingTicker minDelta tr2) = Inr e2 \<and>
           entryExpiry e1 = entryExpiry e2 \<and> entryDelta e1 = entryDelta e2 \<and>
           ((\<forall>e \<in> set chain1. qualifies minDelta e \<and> entryExpiry e = entryExpiry e1 \<and>
                 entryDelta e = entryDelta e1 \<longrightarrow> e = e1) \<longrightarrow> e1 = e2)"
proof -
  from assms(8) obtain e0 where e0: "e0 \<in> set chain1" "qualifies minDelta e0" by auto
  have e0': "e0 \<in> set chain2" using e0(1) assms(5) by simp
  from GetCallLeapsByDelta_selects[OF assms(1,2,3,6) e0, of tr1]
  obtain e1 where e1: "e1 \<in> set chain1" "qualifies minDelta e1"
    "fst (GetCallLeapsByDelta env1 underlyingTicker minDelta tr1) = Inr e1"
    "\<And>e'. e' \<in> set chain1 \<Longrightarrow> qualifies minDelta e' \<Longrightarrow> \<not> Before (entryExpiry e') (entryExpiry e1)"
    "\<And>e'. e' \<in> set chain1 \<Longrightarrow> qualifies minDelta e' \<Longrightarrow> entryExpiry e' = entryExpiry e1 \<Longrightarrow>
            entryDelta e1 \<le> entryDelta e'"
    by blast
  from GetCallLeapsByDelta_selects[OF assms(1,2,4,7) e0' e0(2), of tr2]
  obtain e2 where e2: "e2 \<in> set chain2" "qualifies minDelta e2"
    "fst (GetCallLeapsByDelta env2 underlyingTicker minDelta tr2) = Inr e2"
    "\<And>e'. e' \<in> set chain2 \<Longrightarrow> qualifies minDelta e' \<Longrightarrow> \<not> Before (entryExpiry e') (entryExpiry e2)"
    "\<And>e'. e' \<in> set chain2 \<Longrightarrow> qualifies minDelta e' \<Longrightarrow> entryExpiry e' = entryExpiry e2 \<Longrightarrow>
            entryDelta e2 \<le> entryDelta e'"
    by blast
  have in2: "e1 \<in> set chain2" and in1: "e2 \<in> set chain1" using e1(1) e2(1) assms(5) by simp_all
  have ex: "entryExpiry e1 = entryExpiry e2"
    using Before_antisym[OF e2(4)[OF in2 e1(2)] e1(4)[OF in1 e2(2)]] .
  have de: "entryDelta e1 = entryDelta e2"
    using e1(5)[OF in1 e2(2) ex[symmetric]] e2(5)[OF in2 e1(2) ex] by linarith
  have uniq: "(\<forall>e \<in> set chain1. qualifies minDelta e \<and> entryExpiry e = entryExpiry e1 \<and>
                 entryDelta e = entryDelta e1 \<longrightarrow> e = e1) \<longrightarrow> e1 = e2"
    using in1 e2(2) ex de by auto
  show ?thesis using e1(3) e2(3) ex de uniq by blast
qed

theorem GetCallLeapsByDelta_same_expiry_and_delta_witness:
  "ticker \<noteq> [] \<and> (0::real) < 0.60 \<and>
   optionChain exampleEnv = Inr exampleChain \<and>
   optionChain (exampleEnv\<lparr>optionChain := Inr (rev exampleChain)\<rparr>) = Inr (rev exampleChain) \<and>
   set exampleChain = set (rev exampleChain) \<and>
   sortSlice_ok (sortSlice exampleEnv) (collectValid 0.60 exampleChain) \<and>
   sortSlice_ok (sortSlice (exampleEnv\<lparr>optionChain := Inr (rev exampleChain)\<rparr>))
     (collectValid 0.60 (rev exampleChain)) \<and>
   (\<exists>e \<in> set exampleChain. qualifies 0.60 e) \<and>
   fst (GetCallLeapsByDelta exampleEnv ticker 0.60 []) =
     Inr (''QQQ240621C00420000'', exampleSnapshot 0.62) \<and>
   fst (GetCallLeapsByDelta (exampleEnv\<lparr>optionChain := Inr (rev exampleChain)\<rparr>) ticker 0.60 []) =
     Inr (''QQQ240621C00420000'', exampleSnapshot 0.62)"
proof -
  let ?C = "(''QQQ240621C00420000'', exampleSnapshot 0.62)"
  let ?env2 = "exampleEnv\<lparr>optionChain := Inr (rev exampleChain)\<rparr>"
  have h1: "ticker \<noteq> []" by (rule ticker_nonempty)
  have h2: "(0::real) < 0.60" by simp
  have h3: "optionChain exampleEnv = Inr exampleChain" by (simp add: exampleEnv_def)
  have h4: "optionChain ?env2 = Inr (rev exampleChain)" by simp
  have h5: "set exampleChain = set (rev exampleChain)" by simp
  have h6: "sortSlice_ok (sortSlice exampleEnv) (collectValid 0.60 exampleChain)"
    using insertionSort_ok by (simp add: exampleEnv_def)
  have h7: "sortSlice_ok (sortSlice ?env2) (collectValid 0.60 (rev exampleChain))"
    using insertionSort_ok by (simp add: exampleEnv_def)
  have h8: "\<exists>e \<in> set exampleChain. qualifies 0.60 e"
    using example_facts(3) by (auto simp add: exampleChain_def)
  from GetCallLeapsByDelta_same_expiry_and_delta[OF h1 h2 h3 h4 h5 h6 h7 h8, of "[]" "[]"]
  obtain e1 e2 where r:
    "fst (GetCallLeapsByDelta exampleEnv ticker 0.60 []) = Inr e1"
    "fst (GetCallLeapsByDelta ?env2 ticker 0.60 []) = Inr e2"
    "(\<forall>e \<in> set exampleChain. qualifies 0.60 e \<and> entryExpiry e = entryExpiry e1 \<and>
        entryDelta e = entryDelta e1 \<longrightarrow> e = e1) \<longrightarrow> e1 = e2"
    by blast
  have "fst (GetCallLeapsByDelta exampleEnv ticker 0.60 []) = Inr ?C"
    by (rule exampleChain_selects) (simp_all add: exampleEnv_def)
  then have e1: "e1 = ?C" using r(1) by simp
  have "\<forall>e \<in> set exampleChain. qualifies 0.60 e \<and> entryExpiry e = entryExpiry ?C \<and>
        entryDelta e = entryDelta ?C \<longrightarrow> e = ?C"
    using example_facts(7,8) by (auto simp add: exampleChain_def example_facts(4-6))
  then have "e2 = ?C" using r(3) e1 by simp
  then show ?thesis using h1 h2 h3 h4 h5 h6 h7 h8 r(1,2) e1 by simp
qed

subsection \<open>The orchestrator\<close>

lemma Run_start:
  assumes "lastTradingDayClose env = Inr baseline" and "latestQuote env = Inr current"
  shows "Run s env [] =
     (if (current - baseline) / baseline * 100 \<le> - 2 then
        (case GetOptionsPositions env ticker [Call_GetLastTradingDayClose, Call_GetLatestQuote] of
           (Inl e, tr3) \<Rightarrow> Failure (Wrapped ''failed to get QQQ option positions'' e) tr3
         | (Inr openOptions, tr3) \<Rightarrow>
             if maxActiveOptions s \<le> int (length openOptions) then MaxActiveOptions tr3
             else
               (case GetCallLeapsByDelta env ticker 0.60 tr3 of
                  (Inl e, tr4) \<Rightarrow> Failure (Wrapped ''failed to get call LEAPS option'' e) tr4
                | (Inr (optionSymbol, optionSnapshot), tr4) \<Rightarrow>
                    (case calculateInvestmentSize s env tr4 of
                       (Inl e, tr5) \<Rightarrow>
                         Failure (Wrapped ''failed to calculate investment size'' e) tr5
                     | (Inr investmentSize, tr5) \<Rightarrow>
                         (case PlaceOptionLimitOrderWithTakeProfit env investmentSize
                                 optionSymbol (LatestQuote optionSnapshot) 50.0 tr5 of
                            (Inl e, tr6) \<Rightarrow> (Some (Wrapped ''failed to place order'' e), tr6)
                          | (Inr order, tr6) \<Rightarrow> OrderPlaced tr6))))
      else (None, [Call_GetLastTradingDayClose, Call_GetLatestQuote, Notify NoGapDownN]))"
  using assms ticker_nonempty
  by (simp add: Run_def GetLastTradingDayClose_def GetLatestQuote_def NoGapDown_def Let_def)


lemma Run_at_capacity:
  assumes "lastTradingDayClose env = Inr baseline" and "latestQuote env = Inr current"
    and "(current - baseline) / baseline * 100 \<le> - 2"
    and "positions env 0 = Inr ps"
    and "maxActiveOptions s \<le> int (length (filter (isOptionOn ticker) ps))"
  shows "Run s env [] =
     (None, [Call_GetLastTradingDayClose, Call_GetLatestQuote, Call_GetPositions,
             Notify MaxActiveOptionsN])"
proof -
  have gp: "GetOptionsPositions env ticker [Call_GetLastTradingDayClose, Call_GetLatestQuote] =
      (Inr (filter (isOptionOn ticker) ps),
       [Call_GetLastTradingDayClose, Call_GetLatestQuote] @ [Call_GetPositions])"
    using GetOptionsPositions_ok[of env "[Call_GetLastTradingDayClose, Call_GetLatestQuote]" ps ticker]
      assms(4) ticker_nonempty by simp
  show ?thesis using assms(3,5) by (simp add: Run_start[OF assms(1,2)] gp MaxActiveOptions_def)
qed

lemma Run_below_capacity:
  assumes "lastTradingDayClose env = Inr baseline" and "latestQuote env = Inr current"
    and "(current - baseline) / baseline * 100 \<le> - 2"
    and "positions env 0 = Inr ps"
    and "\<not> maxActiveOptions s \<le> int (length (filter (isOptionOn ticker) ps))"
    and "pre = [Call_GetLastTradingDayClose, Call_GetLatestQuote, Call_GetPositions]"
  shows "Run s env [] =
     (case fst (GetCallLeapsByDelta env ticker 0.60 pre) of
        Inl e \<Rightarrow> (Some (Wrapped ''failed to get call LEAPS option'' e),
                  pre @ [Call_GetOptionChain, Notify FailureN])
      | Inr (optionSymbol, optionSnapshot) \<Rightarrow>
          (case calculateInvestmentSize s env (pre @ [Call_GetOptionChain]) of
             (Inl e, tr5) \<Rightarrow>
               (Some (Wrapped ''failed to calculate investment size'' e), tr5 @ [Notify FailureN])
           | (Inr investmentSize, tr5) \<Rightarrow>
               (case PlaceOptionLimitOrderWithTakeProfit env investmentSize
                       optionSymbol (LatestQuote optionSnapshot) 50.0 tr5 of
                  (Inl e, tr6) \<Rightarrow> (Some (Wrapped ''failed to place order'' e), tr6)
                | (Inr order, tr6) \<Rightarrow> (None, tr6 @ [Notify OrderPlacedN]))))"
proof -
  have gp: "GetOptionsPositions env ticker [Call_GetLastTradingDayClose, Call_GetLatestQuote] =
      (Inr (filter (isOptionOn ticker) ps), pre)"
    using GetOptionsPositions_ok[of env "[Call_GetLastTradingDayClose, Call_GetLatestQuote]" ps ticker]
      assms(4) ticker_nonempty by (simp add: assms(6))
  have lt: "snd (GetCallLeapsByDelta env ticker 0.60 pre) = pre @ [Call_GetOptionChain]"
    using GetCallLeapsByDelta_trace[OF ticker_nonempty, of "0.60" env pre] by simp
  obtain r4 where g4: "GetCallLeapsByDelta env ticker 0.60 pre = (r4, pre @ [Call_GetOptionChain])"
    using lt by (metis prod.collapse)
  show ?thesis
  proof (cases r4)
    case (Inl e)
    then show ?thesis using assms(3,5) g4
      by (simp add: Run_start[OF assms(1,2)] gp Failure_def)
  next
    case (Inr pr)
    obtain osym snap where pr: "pr = (osym, snap)" by (cases pr)
    obtain r5 tr5 where g5: "calculateInvestmentSize s env (pre @ [Call_GetOptionChain]) = (r5, tr5)"
      by (cases "calculateInvestmentSize s env (pre @ [Call_GetOptionChain])")
    show ?thesis
    proof (cases r5)
      case (Inl e)
      then show ?thesis using assms(3,5) g4 Inr pr g5
        by (simp add: Run_start[OF assms(1,2)] gp Failure_def)
    next
      case size: (Inr investmentSize)
      obtain r6 tr6 where g6: "PlaceOptionLimitOrderWithTakeProfit env investmentSize osym
             (LatestQuote snap) 50.0 tr5 = (r6, tr6)"
        by (cases "PlaceOptionLimitOrderWithTakeProfit env investmentSize osym
             (LatestQuote snap) 50.0 tr5")
      show ?thesis using assms(3,5) g4 Inr pr g5 size g6
        by (cases r6) (simp_all add: Run_start[OF assms(1,2)] gp OrderPlaced_def)
    qed
  qed
qed



text \<open>
  C8, as stated, fails: a run that finds no matching contract notifies a failure and
  returns an error, not \<^verbatim>\<open>nil\<close>; a run whose budget buys no contract returns an
  error as well.
\<close>

theorem Run_no_matching_contract_returns_error:
  "Run \<lparr>maxActiveOptions = 5\<rparr> (exampleEnv\<lparr>optionChain := Inr []\<rparr>) [] =
     (Some (Wrapped ''failed to get call LEAPS option'' ErrNoCallLeaps),
      [Call_GetLastTradingDayClose, Call_GetLatestQuote, Call_GetPositions, Call_GetOptionChain,
       Notify FailureN]) \<and>
   Run \<lparr>maxActiveOptions = 5\<rparr> exampleEnv [] =
     (Some (Wrapped ''failed to place order'' ErrQuantityNotPositive),
      [Call_GetLastTradingDayClose, Call_GetLatestQuote, Call_GetPositions, Call_GetOptionChain,
       Call_GetPositions, Call_GetAccount])"
proof -
  let ?pre = "[Call_GetLastTradingDayClose, Call_GetLatestQuote, Call_GetPositions]"
  have sel: "fst (GetCallLeapsByDelta (exampleEnv\<lparr>optionChain := Inr []\<rparr>) ticker 0.60 ?pre) =
      Inl ErrNoCallLeaps"
    by (simp add: GetCallLeapsByDelta_def ticker_def)
  have a: "Run \<lparr>maxActiveOptions = 5\<rparr> (exampleEnv\<lparr>optionChain := Inr []\<rparr>) [] =
     (Some (Wrapped ''failed to get call LEAPS option'' ErrNoCallLeaps),
      ?pre @ [Call_GetOptionChain, Notify FailureN])"
    using Run_below_capacity[where env = "exampleEnv\<lparr>optionChain := Inr []\<rparr>" and baseline = 100
        and current = "97.9" and ps = examplePositions and s = "\<lparr>maxActiveOptions = 5\<rparr>"
        and pre = ?pre, OF _ _ _ _ _ refl] sel
    by (simp add: examplePositions_open exampleEnv_def)
  have sel2: "fst (GetCallLeapsByDelta exampleEnv ticker 0.60 ?pre) =
      Inr (''QQQ240621C00420000'', exampleSnapshot 0.62)"
    by (rule exampleChain_selects) (simp_all add: exampleEnv_def)
  have size: "calculateInvestmentSize \<lparr>maxActiveOptions = 5\<rparr> exampleEnv (?pre @ [Call_GetOptionChain])
      = (Inr 500, ?pre @ [Call_GetOptionChain, Call_GetPositions, Call_GetAccount])"
    using calculateInvestmentSize_ok[where s = "\<lparr>maxActiveOptions = 5\<rparr>"
        and tr = "?pre @ [Call_GetOptionChain]" and env = exampleEnv and ps = examplePositions
        and buyingPower = 1000]
    by (simp add: examplePositions_open exampleEnv_def)
  have plan: "PlaceOptionLimitOrderWithTakeProfit exampleEnv 500 ''QQQ240621C00420000''
        (LatestQuote (exampleSnapshot 0.62)) 50.0
        (?pre @ [Call_GetOptionChain, Call_GetPositions, Call_GetAccount]) =
      (Inl ErrQuantityNotPositive, ?pre @ [Call_GetOptionChain, Call_GetPositions, Call_GetAccount])"
    using exampleQuote_budget_500[where env = exampleEnv
        and optionSymbol = "''QQQ240621C00420000''"
        and tr = "?pre @ [Call_GetOptionChain, Call_GetPositions, Call_GetAccount]"]
    by (simp add: exampleQuote_def exampleSnapshot_def)
  have b: "Run \<lparr>maxActiveOptions = 5\<rparr> exampleEnv [] =
     (Some (Wrapped ''failed to place order'' ErrQuantityNotPositive),
      ?pre @ [Call_GetOptionChain, Call_GetPositions, Call_GetAccount])"
    using Run_below_capacity[where env = exampleEnv and baseline = 100
        and current = "97.9" and ps = examplePositions and s = "\<lparr>maxActiveOptions = 5\<rparr>"
        and pre = ?pre, OF _ _ _ _ _ refl] sel2 size plan
    by (simp add: examplePositions_open exampleEnv_def)
  show ?thesis using a b by simp
qed

text \<open>
  C8 (amended). After a gap down: a run that finds the position cap reached reports it
  through \<^verbatim>\<open>MaxActiveOptions\<close>, submits no order and returns \<^verbatim>\<open>nil\<close>. A run whose
  selector fails, or whose sizer fails, reports the failure through \<^verbatim>\<open>Failure\<close>,
  submits no order and returns that error. A run whose planner finds the quantity to be
  0 submits no order and returns an error.
\<close>

theorem Run_expected_outcomes:
  assumes "lastTradingDayClose env = Inr baseline" and "latestQuote env = Inr current"
    and "(current - baseline) / baseline * 100 \<le> - 2"
    and "positions env 0 = Inr ps"
    and "pre = [Call_GetLastTradingDayClose, Call_GetLatestQuote, Call_GetPositions]"
  shows
    "(maxActiveOptions s \<le> int (length (filter (isOptionOn ticker) ps)) \<longrightarrow>
        Run s env [] = (None, pre @ [Notify MaxActiveOptionsN])) \<and>
     (\<not> maxActiveOptions s \<le> int (length (filter (isOptionOn ticker) ps)) \<longrightarrow>
        (\<forall>e. fst (GetCallLeapsByDelta env ticker 0.60 pre) = Inl e \<longrightarrow>
           Run s env [] = (Some (Wrapped ''failed to get call LEAPS option'' e),
                           pre @ [Call_GetOptionChain, Notify FailureN])) \<and>
        (\<forall>e optionSymbol optionSnapshot.
           fst (GetCallLeapsByDelta env ticker 0.60 pre) = Inr (optionSymbol, optionSnapshot) \<and>
           fst (calculateInvestmentSize s env (pre @ [Call_GetOptionChain])) = Inl e \<longrightarrow>
           Run s env [] =
             (Some (Wrapped ''failed to calculate investment size'' e),
              snd (calculateInvestmentSize s env (pre @ [Call_GetOptionChain])) @ [Notify FailureN]) \<and>
           (\<forall>req. Call_PlaceOrder req \<notin> set (snd (Run s env [])))) \<and>
        (\<forall>optionSymbol optionSnapshot investmentSize tr5.
           fst (GetCallLeapsByDelta env ticker 0.60 pre) = Inr (optionSymbol, optionSnapshot) \<and>
           calculateInvestmentSize s env (pre @ [Call_GetOptionChain]) = (Inr investmentSize, tr5) \<and>
           fst (PlaceOptionLimitOrderWithTakeProfit env investmentSize optionSymbol
                  (LatestQuote optionSnapshot) 50.0 tr5) = Inl ErrQuantityNotPositive \<longrightarrow>
           fst (Run s env []) = Some (Wrapped ''failed to place order'' ErrQuantityNotPositive) \<and>
           (\<forall>req. Call_PlaceOrder req \<notin> set (snd (Run s env [])))))"
proof (cases "maxActiveOptions s \<le> int (length (filter (isOptionOn ticker) ps))")
  case True
  then show ?thesis using Run_at_capacity[OF assms(1-4) True] by (simp add: assms(5))
next
  case False
  note run = Run_below_capacity[OF assms(1-4) False assms(5)]
  have noorder_pre: "\<And>req. Call_PlaceOrder req \<notin> set (pre @ [Call_GetOptionChain])"
    by (simp add: assms(5))
  have c1: "\<forall>e. fst (GetCallLeapsByDelta env ticker 0.60 pre) = Inl e \<longrightarrow>
           Run s env [] = (Some (Wrapped ''failed to get call LEAPS option'' e),
                           pre @ [Call_GetOptionChain, Notify FailureN])"
    by (simp add: run)
  have c2: "\<forall>e optionSymbol optionSnapshot.
           fst (GetCallLeapsByDelta env ticker 0.60 pre) = Inr (optionSymbol, optionSnapshot) \<and>
           fst (calculateInvestmentSize s env (pre @ [Call_GetOptionChain])) = Inl e \<longrightarrow>
           Run s env [] =
             (Some (Wrapped ''failed to calculate investment size'' e),
              snd (calculateInvestmentSize s env (pre @ [Call_GetOptionChain])) @ [Notify FailureN]) \<and>
           (\<forall>req. Call_PlaceOrder req \<notin> set (snd (Run s env [])))"
  proof (intro allI impI)
    fix e optionSymbol optionSnapshot
    assume h: "fst (GetCallLeapsByDelta env ticker 0.60 pre) = Inr (optionSymbol, optionSnapshot) \<and>
           fst (calculateInvestmentSize s env (pre @ [Call_GetOptionChain])) = Inl e"
    obtain tr5 where g5: "calculateInvestmentSize s env (pre @ [Call_GetOptionChain]) = (Inl e, tr5)"
      using h by (metis prod.collapse)
    have r: "Run s env [] = (Some (Wrapped ''failed to calculate investment size'' e), tr5 @ [Notify FailureN])"
      using h g5 by (simp add: run)
    have "set tr5 \<subseteq> set (pre @ [Call_GetOptionChain]) \<union> {Call_GetPositions, Call_GetAccount}"
      using calculateInvestmentSize_trace[of s env "pre @ [Call_GetOptionChain]"] g5 by simp
    then have "\<And>req. Call_PlaceOrder req \<notin> set tr5" using noorder_pre by auto
    then show "Run s env [] =
             (Some (Wrapped ''failed to calculate investment size'' e),
              snd (calculateInvestmentSize s env (pre @ [Call_GetOptionChain])) @ [Notify FailureN]) \<and>
           (\<forall>req. Call_PlaceOrder req \<notin> set (snd (Run s env [])))"
      using r g5 by simp
  qed
  have c3: "\<forall>optionSymbol optionSnapshot investmentSize tr5.
           fst (GetCallLeapsByDelta env ticker 0.60 pre) = Inr (optionSymbol, optionSnapshot) \<and>
           calculateInvestmentSize s env (pre @ [Call_GetOptionChain]) = (Inr investmentSize, tr5) \<and>
           fst (PlaceOptionLimitOrderWithTakeProfit env investmentSize optionSymbol
                  (LatestQuote optionSnapshot) 50.0 tr5) = Inl ErrQuantityNotPositive \<longrightarrow>
           fst (Run s env []) = Some (Wrapped ''failed to place order'' ErrQuantityNotPositive) \<and>
           (\<forall>req. Call_PlaceOrder req \<notin> set (snd (Run s env [])))"
  proof (intro allI impI)
    fix optionSymbol optionSnapshot investmentSize tr5
    assume h: "fst (GetCallLeapsByDelta env ticker 0.60 pre) = Inr (optionSymbol, optionSnapshot) \<and>
           calculateInvestmentSize s env (pre @ [Call_GetOptionChain]) = (Inr investmentSize, tr5) \<and>
           fst (PlaceOptionLimitOrderWithTakeProfit env investmentSize optionSymbol
                  (LatestQuote optionSnapshot) 50.0 tr5) = Inl ErrQuantityNotPositive"
    have g6: "PlaceOptionLimitOrderWithTakeProfit env investmentSize optionSymbol
                  (LatestQuote optionSnapshot) 50.0 tr5 = (Inl ErrQuantityNotPositive, tr5)"
      using h PlaceOrder_insufficient_trace[of env investmentSize optionSymbol
          "LatestQuote optionSnapshot" "50.0" tr5]
      by (simp add: prod_eq_iff)
    have r: "Run s env [] = (Some (Wrapped ''failed to place order'' ErrQuantityNotPositive), tr5)"
      using h g6 by (simp add: run)
    have "set tr5 \<subseteq> set (pre @ [Call_GetOptionChain]) \<union> {Call_GetPositions, Call_GetAccount}"
      using calculateInvestmentSize_trace[of s env "pre @ [Call_GetOptionChain]"] h by simp
    then have "\<And>req. Call_PlaceOrder req \<notin> set tr5" using noorder_pre by auto
    then show "fst (Run s env []) = Some (Wrapped ''failed to place order'' ErrQuantityNotPositive) \<and>
           (\<forall>req. Call_PlaceOrder req \<notin> set (snd (Run s env [])))"
      using r by simp
  qed
  show ?thesis using False c1 c2 c3 by blast
qed

theorem Run_expected_outcomes_witness:
  "lastTradingDayClose exampleEnv = Inr 100 \<and> latestQuote exampleEnv = Inr 97.9 \<and>
   ((97.9 - 100) / 100 * 100 :: real) \<le> - 2 \<and> positions exampleEnv 0 = Inr examplePositions \<and>
   length (filter (isOptionOn ticker) examplePositions) = 3 \<and>
   Run \<lparr>maxActiveOptions = 3\<rparr> exampleEnv [] =
     (None, [Call_GetLastTradingDayClose, Call_GetLatestQuote, Call_GetPositions,
             Notify MaxActiveOptionsN]) \<and>
   fst (GetCallLeapsByDelta (exampleEnv\<lparr>optionChain := Inr []\<rparr>) ticker 0.60
          [Call_GetLastTradingDayClose, Call_GetLatestQuote, Call_GetPositions]) = Inl ErrNoCallLeaps \<and>
   Run \<lparr>maxActiveOptions = 5\<rparr> (exampleEnv\<lparr>optionChain := Inr []\<rparr>) [] =
     (Some (Wrapped ''failed to get call LEAPS option'' ErrNoCallLeaps),
      [Call_GetLastTradingDayClose, Call_GetLatestQuote, Call_GetPositions, Call_GetOptionChain,
       Notify FailureN]) \<and>
   Run \<lparr>maxActiveOptions = 5\<rparr> lateEnv [] =
     (Some (Wrapped ''failed to calculate investment size'' ErrNoRemainingSpots),
      [Call_GetLastTradingDayClose, Call_GetLatestQuote, Call_GetPositions, Call_GetOptionChain,
       Call_GetPositions, Notify FailureN]) \<and>
   fst (Run \<lparr>maxActiveOptions = 5\<rparr> exampleEnv []) =
     Some (Wrapped ''failed to place order'' ErrQuantityNotPositive) \<and>
   (\<forall>req. Call_PlaceOrder req \<notin> set (snd (Run \<lparr>maxActiveOptions = 5\<rparr> exampleEnv [])))"
proof -
  let ?pre = "[Call_GetLastTradingDayClose, Call_GetLatestQuote, Call_GetPositions]"
  let ?s5 = "\<lparr>maxActiveOptions = 5\<rparr>"
  have sel0: "fst (GetCallLeapsByDelta (exampleEnv\<lparr>optionChain := Inr []\<rparr>) ticker 0.60 ?pre) =
      Inl ErrNoCallLeaps"
    by (simp add: GetCallLeapsByDelta_def ticker_def)
  have n: "length (filter (isOptionOn ticker) examplePositions) = 3"
    by (simp add: examplePositions_open)
  have sel: "fst (GetCallLeapsByDelta exampleEnv ticker 0.60 ?pre) =
      Inr (''QQQ240621C00420000'', exampleSnapshot 0.62)"
    by (rule exampleChain_selects) (simp_all add: exampleEnv_def)
  have selL: "fst (GetCallLeapsByDelta lateEnv ticker 0.60 ?pre) =
      Inr (''QQQ240621C00420000'', exampleSnapshot 0.62)"
    by (rule exampleChain_selects) (simp_all add: exampleEnv_def lateEnv_def)
  have sizeL: "calculateInvestmentSize ?s5 lateEnv (?pre @ [Call_GetOptionChain]) =
      (Inl ErrNoRemainingSpots, ?pre @ [Call_GetOptionChain, Call_GetPositions])"
    using calculateInvestmentSize_ok[where s = ?s5 and tr = "?pre @ [Call_GetOptionChain]"
        and env = lateEnv and ps = fullPositions and buyingPower = 1000]
    by (simp add: fullPositions_open exampleEnv_def lateEnv_def)
  have size: "calculateInvestmentSize ?s5 exampleEnv (?pre @ [Call_GetOptionChain])
      = (Inr 500, ?pre @ [Call_GetOptionChain, Call_GetPositions, Call_GetAccount])"
    using calculateInvestmentSize_ok[where s = ?s5 and tr = "?pre @ [Call_GetOptionChain]"
        and env = exampleEnv and ps = examplePositions and buyingPower = 1000]
    by (simp add: examplePositions_open exampleEnv_def)
  have plan: "fst (PlaceOptionLimitOrderWithTakeProfit exampleEnv 500 ''QQQ240621C00420000''
        (LatestQuote (exampleSnapshot 0.62)) 50.0
        (?pre @ [Call_GetOptionChain, Call_GetPositions, Call_GetAccount])) =
      Inl ErrQuantityNotPositive"
    using exampleQuote_budget_500[where env = exampleEnv
        and optionSymbol = "''QQQ240621C00420000''"
        and tr = "?pre @ [Call_GetOptionChain, Call_GetPositions, Call_GetAccount]"]
    by (simp add: exampleQuote_def exampleSnapshot_def)
  have a: "Run \<lparr>maxActiveOptions = 3\<rparr> exampleEnv [] = (None, ?pre @ [Notify MaxActiveOptionsN])"
    using Run_expected_outcomes[where env = exampleEnv and baseline = 100 and current = "97.9"
        and ps = examplePositions and s = "\<lparr>maxActiveOptions = 3\<rparr>" and pre = ?pre,
        OF _ _ _ _ refl] n
    by (simp add: exampleEnv_def)
  have b: "Run ?s5 (exampleEnv\<lparr>optionChain := Inr []\<rparr>) [] =
     (Some (Wrapped ''failed to get call LEAPS option'' ErrNoCallLeaps),
      ?pre @ [Call_GetOptionChain, Notify FailureN])"
    using Run_expected_outcomes[where env = "exampleEnv\<lparr>optionChain := Inr []\<rparr>" and baseline = 100
        and current = "97.9" and ps = examplePositions and s = ?s5 and pre = ?pre, OF _ _ _ _ refl]
      sel0 n
    by (simp add: exampleEnv_def)
  have c: "Run ?s5 lateEnv [] =
     (Some (Wrapped ''failed to calculate investment size'' ErrNoRemainingSpots),
      ?pre @ [Call_GetOptionChain, Call_GetPositions, Notify FailureN])"
    using Run_expected_outcomes[where env = lateEnv and baseline = 100
        and current = "97.9" and ps = examplePositions and s = ?s5 and pre = ?pre, OF _ _ _ _ refl]
      selL sizeL n
    by (simp add: exampleEnv_def lateEnv_def)
  have d: "fst (Run ?s5 exampleEnv []) = Some (Wrapped ''failed to place order'' ErrQuantityNotPositive) \<and>
           (\<forall>req. Call_PlaceOrder req \<notin> set (snd (Run ?s5 exampleEnv [])))"
    using Run_expected_outcomes[where env = exampleEnv and baseline = 100
        and current = "97.9" and ps = examplePositions and s = ?s5 and pre = ?pre, OF _ _ _ _ refl]
      sel size plan n
    by (simp add: exampleEnv_def)
  have h: "lastTradingDayClose exampleEnv = Inr 100 \<and> latestQuote exampleEnv = Inr 97.9 \<and>
   ((97.9 - 100) / 100 * 100 :: real) \<le> - 2 \<and> positions exampleEnv 0 = Inr examplePositions"
    by (simp add: exampleEnv_def)
  show ?thesis using h n a sel0 b c d by simp
qed

end
